theory Spec2Isabelle
  imports Complex_Main "HOL-Library.Char_ord" "HOL-Library.List_Lexorder" "HOL-Library.Multiset"
begin

section \<open>The financial data pipeline of scripts/ingest\_financial\_data.py\<close>

text \<open>
  The script is one class, \<open>FinancialDataPipeline\<close>, whose methods talk to three
  collaborators that are not part of the repository: the HTTP API (\<open>requests.get\<close>),
  the warehouse SDK (\<open>snowflake.connector.connect\<close>, \<open>write_pandas\<close>, \<open>close\<close>) and
  the clock (\<open>datetime.utcnow\<close>). The embedding makes every effect explicit:
  \<^item> what the collaborators answer is an \<open>env\<close>, a record of oracles that the program
    cannot influence (which request gets which response, which write raises, what the
    clock shows at each reading);
  \<^item> what the program does to them is a \<open>world\<close>, threaded through every method: the
    requests sent, the log lines written, the calls made on the warehouse connection
    (\<open>write_pandas\<close> and \<open>close\<close>) in the order they were made, the tables of the
    warehouse and the number of clock readings so far;
  \<^item> a Python exception is a value of \<open>py_exception\<close>, and a method that may raise
    returns a sum whose \<open>Inl\<close> is the exception.
\<close>

subsection \<open>Values\<close>

text \<open>
  A Python float is carried, never computed with: finite values are reals, and the two
  special values that \<open>float()\<close> also accepts are kept apart because pandas counts
  \<open>nan\<close> as a null.
\<close>

datatype pyfloat = Finite real | Infinity bool | NaN

datatype cell = CStr string | CFloat pyfloat | CInt int | CTime nat | CNull

text \<open>
  A \<open>pandas.DataFrame\<close>: the column labels and the rows, each row a list of cells in
  column order. \<open>pd.DataFrame()\<close> has neither columns nor rows.
\<close>

record dataframe =
  columns :: "string list"
  rows :: "cell list list"

definition DataFrame_empty :: dataframe where
  "DataFrame_empty = \<lparr>columns = [], rows = []\<rparr>"

text \<open>\<open>df.empty\<close>: true when any axis has length 0.\<close>

definition df_empty :: "dataframe \<Rightarrow> bool" where
  "df_empty df = (columns df = [] \<or> rows df = [])"

text \<open>\<open>pandas.isnull\<close> on one cell: \<open>None\<close> and the float \<open>nan\<close>.\<close>

fun is_null :: "cell \<Rightarrow> bool" where
  "is_null CNull = True"
| "is_null (CFloat NaN) = True"
| "is_null _ = False"

text \<open>The cell of a row in column \<open>i\<close>; a row too short has a missing value there.\<close>

definition cell_at :: "cell list \<Rightarrow> nat \<Rightarrow> cell" where
  "cell_at r i = (if i < length r then r ! i else CNull)"

text \<open>
  \<open>df[cols].isnull().sum()\<close> with \<open>cols = df.columns.tolist()\<close>: selecting by a list
  of labels takes, for each label of the list in turn, every column that carries that
  label; the sum is the number of nulls of each selected column. With labels that are
  pairwise distinct this is one count for each column.
\<close>

definition isnull_sum :: "dataframe \<Rightarrow> (string \<times> nat) list" where
  "isnull_sum df =
     concat
       (map (\<lambda>label.
               map (\<lambda>(i, c). (c, length (filter (\<lambda>r. is_null (cell_at r i)) (rows df))))
                 (filter (\<lambda>(i, c). c = label) (enumerate 0 (columns df))))
          (columns df))"

subsection \<open>Exceptions, log lines\<close>

datatype py_exception =
    ConnectError
  | RequestException
  | JSONDecodeError
  | TypeError
  | AttributeError
  | KeyError string
  | ValueError
  | OverflowError
  | WriteError

datatype level = INFO | WARNING | ERROR

text \<open>
  One constructor for each \<open>logger\<close> call of the source, with the values its f-string
  interpolates.
\<close>

datatype msg =
    Connected
  | ConnectionFailed py_exception
  | FetchingStockPrices
  | FetchedRecords nat string
  | NoDataFor string string
  | FailedToFetch string nat
  | ErrorFetching py_exception
  | CreatingCompanyDimension
  | Validating string
  | EmptyDataframe string
  | NullValuesDetected string "(string \<times> nat) list"
  | ValidationPassed string nat
  | Loading nat string
  | SuccessfullyLoaded string
  | FailedToLoad string py_exception
  | Banner
  | StartingPipeline
  | SkippingStockPrices
  | PipelineCompleted
  | PipelineFailed py_exception

subsection \<open>The HTTP responses\<close>

text \<open>
  A value of a daily entry as the code reads it: the key may be missing (\<open>KeyError\<close>),
  its value may be one that \<open>float()\<close> or \<open>int()\<close> rejects with the exception \<open>e\<close>
  (\<open>ValueError\<close> for a string that is not a number, \<open>TypeError\<close> for \<open>null\<close> or a
  container, \<open>OverflowError\<close> for an infinite number given to \<open>int()\<close>), or it
  converts to \<open>v\<close>.
\<close>

datatype 'a field = Absent | Invalid py_exception | Value 'a

datatype prices =
    NotADict
  | Prices (f_open: "pyfloat field") (f_high: "pyfloat field") (f_low: "pyfloat field")
      (f_close: "pyfloat field") (f_volume: "int field")

text \<open>
  The value under \<open>"Time Series (Daily)"\<close>: a dictionary from date strings to daily
  entries, in the order of the payload, or something without \<open>.items()\<close>.
\<close>

datatype time_series = TsNotADict | TsEntries "(string \<times> prices) list"

text \<open>
  What \<open>response.json()\<close> returns: a dictionary, with or without the key
  \<open>"Time Series (Daily)"\<close> and with or without a \<open>"Note"\<close>, or a JSON value that is
  not a dictionary. On such a value the code raises before it appends or logs anything:
  the membership test raises \<open>TypeError\<close> on a number, a boolean or \<open>null\<close>;
  on a list or a string it succeeds, and then \<open>result[...]\<close> raises \<open>TypeError\<close> or
  \<open>result.get\<close> raises \<open>AttributeError\<close>. \<open>JsonOther e\<close> is such a value, with the
  exception it leads to.
\<close>

datatype json_result = JsonOther py_exception | JsonObject "time_series option" "string option"

text \<open>
  What \<open>requests.get\<close> does: it raises, or it returns a response with a status code
  and a body; \<open>None\<close> is a body on which \<open>response.json()\<close> raises.
\<close>

datatype http_outcome = GetRaises | Response nat "json_result option"

subsection \<open>Environment and world\<close>

record env =
  connect_raises :: bool
  http_get :: "nat \<Rightarrow> string \<Rightarrow> http_outcome"
  utcnow :: "nat \<Rightarrow> nat"
  write_raises :: "nat \<Rightarrow> bool"

text \<open>
  \<open>http_get env n t\<close> answers the \<open>n\<close>-th request of the process, sent for symbol \<open>t\<close>;
  \<open>utcnow env n\<close> is what the \<open>n\<close>-th reading of the clock shows; \<open>write_raises env n\<close>
  says whether the \<open>n\<close>-th call of \<open>write_pandas\<close> raises.
\<close>

text \<open>
  A call made on the warehouse connection: \<open>write_pandas\<close> with its frame, table name,
  \<open>auto_create_table\<close> and \<open>overwrite\<close>, or \<open>close\<close>.
\<close>

datatype sf_call = WritePandas dataframe string bool bool | Close

record world =
  clock :: nat
  requests :: "string list"
  logged :: "(level \<times> msg) list"
  tables :: "string \<rightharpoonup> cell list list"
  sf_calls :: "sf_call list"

text \<open>
  The \<open>write_pandas\<close> calls made so far, in order, and the number of times the
  connection was closed.
\<close>

definition write_calls :: "world \<Rightarrow> sf_call list" where
  "write_calls w = filter (\<lambda>c. c \<noteq> Close) (sf_calls w)"

definition close_calls :: "world \<Rightarrow> nat" where
  "close_calls w = length (filter (\<lambda>c. c = Close) (sf_calls w))"

definition logger :: "level \<Rightarrow> msg \<Rightarrow> world \<Rightarrow> world" where
  "logger l m w = w\<lparr>logged := logged w @ [(l, m)]\<rparr>"

definition datetime_utcnow :: "env \<Rightarrow> world \<Rightarrow> nat \<times> world" where
  "datetime_utcnow env w = (utcnow env (clock w), w\<lparr>clock := Suc (clock w)\<rparr>)"

subsection \<open>The pipeline object\<close>

record company =
  ticker :: string
  name :: string
  sector :: string

record pipeline =
  sf_conn :: "unit option"
  companies :: "company list"

text \<open>The list literal of \<open>__init__\<close>.\<close>

definition static_companies :: "company list" where
  "static_companies =
     [\<lparr>ticker = ''AAPL'', name = ''Apple Inc.'', sector = ''Technology''\<rparr>,
      \<lparr>ticker = ''JPM'', name = ''JPMorgan Chase'', sector = ''Finance''\<rparr>,
      \<lparr>ticker = ''JNJ'', name = ''Johnson & Johnson'', sector = ''Healthcare''\<rparr>,
      \<lparr>ticker = ''PG'', name = ''Procter & Gamble'', sector = ''Consumer''\<rparr>,
      \<lparr>ticker = ''XOM'', name = ''Exxon Mobil'', sector = ''Energy''\<rparr>]"

text \<open>
  \<open>connect_snowflake\<close>: the connection is made and the schema selected, or the
  exception is logged and raised again.
\<close>

definition connect_snowflake :: "env \<Rightarrow> pipeline \<Rightarrow> world \<Rightarrow> (py_exception + pipeline) \<times> world" where
  "connect_snowflake env p w =
     (if connect_raises env
      then (Inl ConnectError, logger ERROR (ConnectionFailed ConnectError) w)
      else (Inr (p\<lparr>sf_conn := Some ()\<rparr>), logger INFO Connected w))"

text \<open>\<open>__init__\<close>: \<open>sf_conn\<close> is \<open>None\<close>, the catalog is the literal, then the connection.\<close>

definition init :: "env \<Rightarrow> world \<Rightarrow> (py_exception + pipeline) \<times> world" where
  "init env w = connect_snowflake env \<lparr>sf_conn = None, companies = static_companies\<rparr> w"

subsection \<open>fetch\_stock\_prices\<close>

record quote_record =
  q_ticker :: string
  q_date :: string
  open_price :: pyfloat
  close_price :: pyfloat
  high_price :: pyfloat
  low_price :: pyfloat
  volume :: int
  ingested_at :: nat

text \<open>\<open>prices[key]\<close> followed by \<open>float(...)\<close> or \<open>int(...)\<close>.\<close>

fun convert :: "string \<Rightarrow> 'a field \<Rightarrow> py_exception + 'a" where
  "convert k Absent = Inl (KeyError k)"
| "convert k (Invalid e) = Inl e"
| "convert k (Value v) = Inr v"

text \<open>
  The dictionary literal of the inner loop, up to its last entry: the five conversions
  in the order the source writes them (open, close, high, low, volume). The first that
  raises ends the evaluation.
\<close>

fun parse_prices :: "prices \<Rightarrow> py_exception + (pyfloat \<times> pyfloat \<times> pyfloat \<times> pyfloat \<times> int)" where
  "parse_prices NotADict = Inl TypeError"
| "parse_prices (Prices po ph pl pc pv) =
     (case convert ''1. open'' po of Inl e \<Rightarrow> Inl e | Inr vo \<Rightarrow>
     (case convert ''4. close'' pc of Inl e \<Rightarrow> Inl e | Inr vc \<Rightarrow>
     (case convert ''2. high'' ph of Inl e \<Rightarrow> Inl e | Inr vh \<Rightarrow>
     (case convert ''3. low'' pl of Inl e \<Rightarrow> Inl e | Inr vl \<Rightarrow>
     (case convert ''6. volume'' pv of Inl e \<Rightarrow> Inl e | Inr vv \<Rightarrow>
        Inr (vo, vc, vh, vl, vv))))))"

definition make_quote ::
  "string \<Rightarrow> string \<Rightarrow> (pyfloat \<times> pyfloat \<times> pyfloat \<times> pyfloat \<times> int) \<Rightarrow> nat \<Rightarrow> quote_record" where
  "make_quote t d vals ts =
     (case vals of (vo, vc, vh, vl, vv) \<Rightarrow>
        \<lparr>q_ticker = t, q_date = d, open_price = vo, close_price = vc, high_price = vh,
         low_price = vl, volume = vv, ingested_at = ts\<rparr>)"

text \<open>
  The inner \<open>for\<close> loop over the daily entries: each entry is converted, stamped with a
  reading of the clock and appended to \<open>data\<close>. An exception leaves the loop with the
  records appended so far still in \<open>data\<close>.
\<close>

fun append_entries ::
  "env \<Rightarrow> string \<Rightarrow> (string \<times> prices) list \<Rightarrow> quote_record list \<Rightarrow> world
     \<Rightarrow> py_exception option \<times> quote_record list \<times> world" where
  "append_entries env t [] data w = (None, data, w)"
| "append_entries env t ((d, pr) # es) data w =
     (case parse_prices pr of
        Inl e \<Rightarrow> (Some e, data, w)
      | Inr vals \<Rightarrow>
          (case datetime_utcnow env w of
             (ts, w1) \<Rightarrow> append_entries env t es (data @ [make_quote t d vals ts]) w1))"

text \<open>
  The body of the outer \<open>for\<close> loop for one company: one request, then the branches on
  the status code and on the payload.
\<close>

definition fetch_company ::
  "env \<Rightarrow> company \<Rightarrow> quote_record list \<Rightarrow> world
     \<Rightarrow> py_exception option \<times> quote_record list \<times> world" where
  "fetch_company env c data w =
     (let t = ticker c;
          w1 = w\<lparr>requests := requests w @ [t]\<rparr>
      in case http_get env (length (requests w)) t of
           GetRaises \<Rightarrow> (Some RequestException, data, w1)
         | Response status body \<Rightarrow>
             if status = 200 then
               (case body of
                  None \<Rightarrow> (Some JSONDecodeError, data, w1)
                | Some (JsonOther e) \<Rightarrow> (Some e, data, w1)
                | Some (JsonObject None note) \<Rightarrow>
                    (None, data,
                     logger WARNING
                       (NoDataFor t (case note of None \<Rightarrow> ''Unknown error'' | Some s \<Rightarrow> s)) w1)
                | Some (JsonObject (Some TsNotADict) note) \<Rightarrow> (Some AttributeError, data, w1)
                | Some (JsonObject (Some (TsEntries es)) note) \<Rightarrow>
                    (case append_entries env t (take 30 es) data w1 of
                       (Some e, data', w2) \<Rightarrow> (Some e, data', w2)
                     | (None, data', w2) \<Rightarrow>
                         (None, data',
                          logger INFO
                            (FetchedRecords (length (filter (\<lambda>d. q_ticker d = t) data')) t) w2)))
             else (None, data, logger WARNING (FailedToFetch t status) w1))"

text \<open>The outer loop: the first exception ends it.\<close>

fun fetch_loop ::
  "env \<Rightarrow> company list \<Rightarrow> quote_record list \<Rightarrow> world
     \<Rightarrow> py_exception option \<times> quote_record list \<times> world" where
  "fetch_loop env [] data w = (None, data, w)"
| "fetch_loop env (c # cs) data w =
     (case fetch_company env c data w of
        (Some e, data', w') \<Rightarrow> (Some e, data', w')
      | (None, data', w') \<Rightarrow> fetch_loop env cs data' w')"

text \<open>\<open>pd.DataFrame(data)\<close> for a non-empty list of the dictionaries built above.\<close>

definition quote_columns :: "string list" where
  "quote_columns =
     [''ticker'', ''date'', ''open_price'', ''close_price'', ''high_price'', ''low_price'',
      ''volume'', ''ingested_at'']"

definition quote_row :: "quote_record \<Rightarrow> cell list" where
  "quote_row q =
     [CStr (q_ticker q), CStr (q_date q), CFloat (open_price q), CFloat (close_price q),
      CFloat (high_price q), CFloat (low_price q), CInt (volume q), CTime (ingested_at q)]"

definition DataFrame_quotes :: "quote_record list \<Rightarrow> dataframe" where
  "DataFrame_quotes data = \<lparr>columns = quote_columns, rows = map quote_row data\<rparr>"

text \<open>
  The \<open>try\<close> block of \<open>fetch_stock_prices\<close>: the list \<open>data\<close> it leaves behind, the
  exception that ended it (if any) and the world.
\<close>

definition fetch_try ::
  "env \<Rightarrow> pipeline \<Rightarrow> world \<Rightarrow> py_exception option \<times> quote_record list \<times> world" where
  "fetch_try env p w = fetch_loop env (take 2 (companies p)) [] (logger INFO FetchingStockPrices w)"

text \<open>
  \<open>fetch_stock_prices\<close>: the \<open>except Exception\<close> clause logs the exception and falls
  through to the \<open>return\<close>.
\<close>

definition fetch_stock_prices :: "env \<Rightarrow> pipeline \<Rightarrow> world \<Rightarrow> (py_exception + dataframe) \<times> world" where
  "fetch_stock_prices env p w =
     (case fetch_try env p w of
        (r, data, w2) \<Rightarrow>
          (Inr (if data \<noteq> [] then DataFrame_quotes data else DataFrame_empty),
           (case r of Some e \<Rightarrow> logger ERROR (ErrorFetching e) w2 | None \<Rightarrow> w2)))"

subsection \<open>create\_company\_dimension, validate\_data\<close>

text \<open>
  \<open>pd.DataFrame(self.companies).assign(created_at=..., updated_at=...)\<close>: one row for
  each company, the three keys of the dictionaries as columns (none when the list is
  empty), and two columns holding the two readings of the clock.
\<close>

definition create_company_dimension :: "env \<Rightarrow> pipeline \<Rightarrow> world \<Rightarrow> dataframe \<times> world" where
  "create_company_dimension env p w =
     (case datetime_utcnow env (logger INFO CreatingCompanyDimension w) of
        (created, w1) \<Rightarrow>
          (case datetime_utcnow env w1 of
             (updated, w2) \<Rightarrow>
               (\<lparr>columns = (if companies p = [] then [] else [''ticker'', ''name'', ''sector''])
                    @ [''created_at'', ''updated_at''],
                 rows = map (\<lambda>c. [CStr (ticker c), CStr (name c), CStr (sector c),
                                   CTime created, CTime updated]) (companies p)\<rparr>, w2)))"

definition validate_data :: "dataframe \<Rightarrow> string \<Rightarrow> world \<Rightarrow> bool \<times> world" where
  "validate_data df table_name w =
     (let w1 = logger INFO (Validating table_name) w
      in if df_empty df then (False, logger WARNING (EmptyDataframe table_name) w1)
         else
           (let nulls = isnull_sum df;
                w2 = (if sum_list (map snd nulls) > 0
                      then logger WARNING
                             (NullValuesDetected table_name (filter (\<lambda>(c, n). n > 0) nulls)) w1
                      else w1)
            in (True, logger INFO (ValidationPassed table_name (length (rows df))) w2)))"

subsection \<open>load\_to\_snowflake\<close>

text \<open>
  \<open>str.upper\<close> on strings of ASCII characters, which the two table names of this
  program are: the letters \<open>a\<close> to \<open>z\<close> are replaced, every other character is left
  as it is. (A \<open>char\<close> is a byte; on letters outside ASCII, which \<open>str.upper\<close> also
  changes, this function is not \<open>str.upper\<close>.)
\<close>

definition upper_char :: "char \<Rightarrow> char" where
  "upper_char c =
     (let n = (of_char c :: nat) in if 97 \<le> n \<and> n \<le> 122 then char_of (n - 32) else c)"

definition upper :: "string \<Rightarrow> string" where
  "upper s = map upper_char s"

text \<open>
  \<open>write_pandas(conn, df, table_name, auto_create_table, overwrite)\<close> of the warehouse
  SDK, by its documented behaviour: the call raises when the environment says so (or
  when there is no connection, or the table is absent and may not be created);
  otherwise the rows of \<open>df\<close> replace the rows of the table when \<open>overwrite\<close> is set and
  are appended to them when it is not, and an absent table is created first. Every call
  is recorded with its arguments.
\<close>

definition write_pandas ::
  "env \<Rightarrow> unit option \<Rightarrow> dataframe \<Rightarrow> string \<Rightarrow> bool \<Rightarrow> bool \<Rightarrow> world
     \<Rightarrow> py_exception option \<times> world" where
  "write_pandas env conn df tbl auto_create_table overwrite w =
     (let w1 = w\<lparr>sf_calls := sf_calls w @ [WritePandas df tbl auto_create_table overwrite]\<rparr>
      in if conn = None then (Some AttributeError, w1)
         else if write_raises env (length (write_calls w)) then (Some WriteError, w1)
         else
           (case tables w tbl of
              None \<Rightarrow>
                if auto_create_table then (None, w1\<lparr>tables := (tables w)(tbl \<mapsto> rows df)\<rparr>)
                else (Some WriteError, w1)
            | Some old \<Rightarrow>
                (None, w1\<lparr>tables := (tables w)(tbl \<mapsto> (if overwrite then rows df else old @ rows df))\<rparr>)))"

definition load_to_snowflake ::
  "env \<Rightarrow> pipeline \<Rightarrow> dataframe \<Rightarrow> string \<Rightarrow> world \<Rightarrow> py_exception option \<times> world" where
  "load_to_snowflake env p df table_name w =
     (case write_pandas env (sf_conn p) df (upper table_name) True False
             (logger INFO (Loading (length (rows df)) table_name) w) of
        (Some e, w2) \<Rightarrow> (Some e, logger ERROR (FailedToLoad table_name e) w2)
      | (None, w2) \<Rightarrow> (None, logger INFO (SuccessfullyLoaded table_name) w2))"

subsection \<open>run\_pipeline\<close>

text \<open>
  The mock frame of the \<open>else\<close> branch: four rows, the scalar \<open>ingested_at\<close> broadcast
  to each of them.
\<close>

definition mock_prices :: "nat \<Rightarrow> dataframe" where
  "mock_prices ts =
     \<lparr>columns = quote_columns,
      rows =
        [[CStr ''AAPL'', CStr ''2025-01-10'', CFloat (Finite 150), CFloat (Finite 151),
          CFloat (Finite 152), CFloat (Finite 149.5), CInt 50000000, CTime ts],
         [CStr ''AAPL'', CStr ''2025-01-09'', CFloat (Finite 148.5), CFloat (Finite 149),
          CFloat (Finite 150), CFloat (Finite 148), CInt 45000000, CTime ts],
         [CStr ''JPM'', CStr ''2025-01-10'', CFloat (Finite 200), CFloat (Finite 201),
          CFloat (Finite 202), CFloat (Finite 199.5), CInt 30000000, CTime ts],
         [CStr ''JPM'', CStr ''2025-01-09'', CFloat (Finite 199), CFloat (Finite 200),
          CFloat (Finite 201), CFloat (Finite 198.5), CInt 28000000, CTime ts]]\<rparr>"

text \<open>The three log lines that open the \<open>try\<close> block.\<close>

definition start_banner :: "world \<Rightarrow> world" where
  "start_banner w = logger INFO Banner (logger INFO StartingPipeline (logger INFO Banner w))"

text \<open>The part under \<open># Extract\<close>: the company frame, then the quotes.\<close>

definition extract_frames ::
  "env \<Rightarrow> pipeline \<Rightarrow> world \<Rightarrow> dataframe \<times> (py_exception + dataframe) \<times> world" where
  "extract_frames env p w =
     (case create_company_dimension env p w of
        (companies_df, w1) \<Rightarrow>
          (case fetch_stock_prices env p w1 of
             (r, w2) \<Rightarrow> (companies_df, r, w2)))"

text \<open>The \<open>else\<close> branch: the warning, the mock frame, its load.\<close>

definition load_mock :: "env \<Rightarrow> pipeline \<Rightarrow> world \<Rightarrow> py_exception option \<times> world" where
  "load_mock env p w =
     (case datetime_utcnow env (logger WARNING SkippingStockPrices w) of
        (ts, w1) \<Rightarrow> load_to_snowflake env p (mock_prices ts) ''stg_stock_prices'' w1)"

text \<open>
  The \<open>if ... and ...\<close> on the quotes: \<open>validate_data\<close> is called only on a frame that
  is not empty.
\<close>

definition load_stock_prices ::
  "env \<Rightarrow> pipeline \<Rightarrow> dataframe \<Rightarrow> world \<Rightarrow> py_exception option \<times> world" where
  "load_stock_prices env p stock_prices_df w =
     (if \<not> df_empty stock_prices_df then
        (case validate_data stock_prices_df ''stg_stock_prices'' w of
           (True, w1) \<Rightarrow> load_to_snowflake env p stock_prices_df ''stg_stock_prices'' w1
         | (False, w1) \<Rightarrow> load_mock env p w1)
      else load_mock env p w)"

definition load_companies ::
  "env \<Rightarrow> pipeline \<Rightarrow> dataframe \<Rightarrow> world \<Rightarrow> py_exception option \<times> world" where
  "load_companies env p companies_df w =
     (case validate_data companies_df ''stg_companies'' w of
        (True, w1) \<Rightarrow> load_to_snowflake env p companies_df ''stg_companies'' w1
      | (False, w1) \<Rightarrow> (None, w1))"

text \<open>The \<open>try\<close> block of \<open>run_pipeline\<close>: the exception that left it, if any.\<close>

definition run_try :: "env \<Rightarrow> pipeline \<Rightarrow> world \<Rightarrow> py_exception option \<times> world" where
  "run_try env p w =
     (case extract_frames env p (start_banner w) of
        (companies_df, Inl e, w2) \<Rightarrow> (Some e, w2)
      | (companies_df, Inr stock_prices_df, w2) \<Rightarrow>
          (case load_companies env p companies_df w2 of
             (Some e, w3) \<Rightarrow> (Some e, w3)
           | (None, w3) \<Rightarrow>
               (case load_stock_prices env p stock_prices_df w3 of
                  (Some e, w4) \<Rightarrow> (Some e, w4)
                | (None, w4) \<Rightarrow>
                    (None, logger INFO Banner (logger INFO PipelineCompleted (logger INFO Banner w4))))))"

text \<open>\<open>self.sf_conn.close()\<close>.\<close>

definition sf_close :: "world \<Rightarrow> world" where
  "sf_close w = w\<lparr>sf_calls := sf_calls w @ [Close]\<rparr>"

text \<open>The \<open>except\<close> clause: the exception is logged and raised again.\<close>

definition run_except :: "env \<Rightarrow> pipeline \<Rightarrow> world \<Rightarrow> (py_exception + unit) \<times> world" where
  "run_except env p w =
     (case run_try env p w of
        (Some e, w1) \<Rightarrow> (Inl e, logger ERROR (PipelineFailed e) w1)
      | (None, w1) \<Rightarrow> (Inr (), w1))"

text \<open>\<open>run_pipeline\<close>: the \<open>finally\<close> clause runs on both ways out.\<close>

definition run_pipeline :: "env \<Rightarrow> pipeline \<Rightarrow> world \<Rightarrow> (py_exception + unit) \<times> world" where
  "run_pipeline env p w =
     (case run_except env p w of
        (r, w1) \<Rightarrow> (r, if sf_conn p \<noteq> None then sf_close w1 else w1))"

text \<open>The \<open>__main__\<close> block.\<close>

definition main :: "env \<Rightarrow> world \<Rightarrow> (py_exception + unit) \<times> world" where
  "main env w =
     (case init env w of
        (Inl e, w1) \<Rightarrow> (Inl e, w1)
      | (Inr p, w1) \<Rightarrow> run_pipeline env p w1)"

text \<open>The world of a fresh process.\<close>

definition world0 :: world where
  "world0 = \<lparr>clock = 0, requests = [], logged = [], tables = Map.empty, sf_calls = []\<rparr>"

subsection \<open>Reference notions and example runs\<close>

text \<open>
  The \<open>n\<close> entries of a payload with the latest dates, latest first. ISO dates compare
  as strings.
\<close>

definition most_recent :: "nat \<Rightarrow> (string \<times> prices) list \<Rightarrow> (string \<times> prices) list" where
  "most_recent n es = take n (rev (sort_key fst es))"

text \<open>The object that \<open>__init__\<close> leaves behind when the connection is made.\<close>

definition constructed :: pipeline where
  "constructed = \<lparr>sf_conn = Some (), companies = static_companies\<rparr>"

text \<open>A daily entry with all five values, and one without its volume.\<close>

definition good_prices :: prices where
  "good_prices =
     Prices (Value (Finite 150)) (Value (Finite 152)) (Value (Finite 149.5))
       (Value (Finite 151)) (Value 50000000)"

definition no_volume :: prices where
  "no_volume =
     Prices (Value (Finite 148.5)) (Value (Finite 150)) (Value (Finite 148))
       (Value (Finite 149)) Absent"

text \<open>The API answers every request with status 503; the warehouse accepts every write.\<close>

definition env_exhausted :: env where
  "env_exhausted =
     \<lparr>connect_raises = False, http_get = (\<lambda>n t. Response 503 None),
      utcnow = (\<lambda>n. 100 + n), write_raises = (\<lambda>n. False)\<rparr>"

text \<open>The same API, and a warehouse whose first write raises.\<close>

definition env_write_fails :: env where
  "env_write_fails =
     \<lparr>connect_raises = False, http_get = (\<lambda>n t. Response 503 None),
      utcnow = (\<lambda>n. 100 + n), write_raises = (\<lambda>n. n = 0)\<rparr>"

text \<open>
  The API answers with two days, newest first, for every symbol; the warehouse accepts
  every write.
\<close>

definition two_days :: "(string \<times> prices) list" where
  "two_days = [(''2025-01-10'', good_prices), (''2025-01-09'', good_prices)]"

definition env_live :: env where
  "env_live =
     \<lparr>connect_raises = False,
      http_get = (\<lambda>n t. Response 200 (Some (JsonObject (Some (TsEntries two_days)) None))),
      utcnow = (\<lambda>n. 100 + n), write_raises = (\<lambda>n. False)\<rparr>"

text \<open>
  The second day of AAPL has no volume; the payload for every other symbol is one
  complete day.
\<close>

definition env_partial :: env where
  "env_partial =
     \<lparr>connect_raises = False,
      http_get =
        (\<lambda>n t. if t = ''AAPL''
                then Response 200
                       (Some (JsonObject
                          (Some (TsEntries [(''2025-01-10'', good_prices), (''2025-01-09'', no_volume)]))
                          None))
                else Response 200
                       (Some (JsonObject (Some (TsEntries [(''2025-01-10'', good_prices)])) None))),
      utcnow = (\<lambda>n. 100 + n), write_raises = (\<lambda>n. False)\<rparr>"

text \<open>A payload of 31 complete days, oldest first.\<close>

definition january :: "(string \<times> prices) list" where
  "january =
     map (\<lambda>d. (''2025-01-'' @ d, good_prices))
       [''01'', ''02'', ''03'', ''04'', ''05'', ''06'', ''07'', ''08'', ''09'', ''10'',
        ''11'', ''12'', ''13'', ''14'', ''15'', ''16'', ''17'', ''18'', ''19'', ''20'',
        ''21'', ''22'', ''23'', ''24'', ''25'', ''26'', ''27'', ''28'', ''29'', ''30'', ''31'']"

definition env_oldest_first :: env where
  "env_oldest_first =
     \<lparr>connect_raises = False,
      http_get = (\<lambda>n t. Response 200 (Some (JsonObject (Some (TsEntries january)) None))),
      utcnow = (\<lambda>n. 100 + n), write_raises = (\<lambda>n. False)\<rparr>"

text \<open>A frame of one row and one column.\<close>

definition one_row :: dataframe where
  "one_row = \<lparr>columns = [''ticker''], rows = [[CStr ''AAPL'']]\<rparr>"


text \<open>
  The quote records of a list of daily entries that all convert, in the order of the
  list, the \<open>i\<close>-th stamped with the \<open>(c + i)\<close>-th reading of the clock.
\<close>

fun quotes_of_entries :: "env \<Rightarrow> string \<Rightarrow> nat \<Rightarrow> (string \<times> prices) list \<Rightarrow> quote_record list" where
  "quotes_of_entries env t c [] = []"
| "quotes_of_entries env t c ((d, pr) # es) =
     make_quote t d (projr (parse_prices pr)) (utcnow env c) # quotes_of_entries env t (Suc c) es"

text \<open>Every entry of the list converts.\<close>

definition all_convert :: "(string \<times> prices) list \<Rightarrow> bool" where
  "all_convert es = list_all (\<lambda>(d, pr). \<not> isl (parse_prices pr)) es"

text \<open>The first company of the catalog.\<close>

definition aapl :: company where
  "aapl = \<lparr>ticker = ''AAPL'', name = ''Apple Inc.'', sector = ''Technology''\<rparr>"

text \<open>
  The API answers every request with status 200 and a dictionary that has a note and
  no time series, as it does beyond the rate limit.
\<close>

definition env_rate_limited :: env where
  "env_rate_limited =
     \<lparr>connect_raises = False,
      http_get = (\<lambda>n t. Response 200 (Some (JsonObject None (Some ''rate limit'')))),
      utcnow = (\<lambda>n. 100 + n), write_raises = (\<lambda>n. False)\<rparr>"

text \<open>Every request raises (the API cannot be reached).\<close>

definition env_unreachable :: env where
  "env_unreachable =
     \<lparr>connect_raises = False, http_get = (\<lambda>n t. GetRaises),
      utcnow = (\<lambda>n. 100 + n), write_raises = (\<lambda>n. False)\<rparr>"

text \<open>The API is exhausted and the second write of the warehouse raises.\<close>

definition env_second_write_fails :: env where
  "env_second_write_fails =
     \<lparr>connect_raises = False, http_get = (\<lambda>n t. Response 503 None),
      utcnow = (\<lambda>n. 100 + n), write_raises = (\<lambda>n. n = 1)\<rparr>"

section \<open>Auxiliary facts\<close>

lemma write_calls_simps [simp]:
  "write_calls (clock_update f w) = write_calls w"
  "write_calls (requests_update g w) = write_calls w"
  "write_calls (logged_update h w) = write_calls w"
  "write_calls (tables_update k w) = write_calls w"
  "write_calls (w\<lparr>sf_calls := sf_calls w @ cs\<rparr>) = write_calls w @ filter (\<lambda>c. c \<noteq> Close) cs"
  "write_calls \<lparr>clock = a, requests = b, logged = c, tables = d, sf_calls = e\<rparr> =
     filter (\<lambda>c. c \<noteq> Close) e"
  by (simp_all add: write_calls_def)

lemma close_calls_simps [simp]:
  "close_calls (clock_update f w) = close_calls w"
  "close_calls (requests_update g w) = close_calls w"
  "close_calls (logged_update h w) = close_calls w"
  "close_calls (tables_update k w) = close_calls w"
  "close_calls (w\<lparr>sf_calls := sf_calls w @ cs\<rparr>) =
     close_calls w + length (filter (\<lambda>c. c = Close) cs)"
  "close_calls \<lparr>clock = a, requests = b, logged = c, tables = d, sf_calls = e\<rparr> =
     length (filter (\<lambda>c. c = Close) e)"
  by (simp_all add: close_calls_def)

lemma logger_fields [simp]:
  "sf_calls (logger l m w) = sf_calls w"
  "clock (logger l m w) = clock w"
  "requests (logger l m w) = requests w"
  "logged (logger l m w) = logged w @ [(l, m)]"
  "tables (logger l m w) = tables w"
  "write_calls (logger l m w) = write_calls w"
  "close_calls (logger l m w) = close_calls w"
  by (simp_all add: logger_def)

lemma datetime_utcnow_fields [simp]:
  "fst (datetime_utcnow env w) = utcnow env (clock w)"
  "clock (snd (datetime_utcnow env w)) = Suc (clock w)"
  "sf_calls (snd (datetime_utcnow env w)) = sf_calls w"
  "requests (snd (datetime_utcnow env w)) = requests w"
  "logged (snd (datetime_utcnow env w)) = logged w"
  "tables (snd (datetime_utcnow env w)) = tables w"
  "write_calls (snd (datetime_utcnow env w)) = write_calls w"
  "close_calls (snd (datetime_utcnow env w)) = close_calls w"
  by (simp_all add: datetime_utcnow_def)

lemma append_entries_frame:
  "append_entries env t es data w = (r, data', w') \<Longrightarrow>
     requests w' = requests w \<and> tables w' = tables w \<and> write_calls w' = write_calls w
     \<and> close_calls w' = close_calls w"
proof (induction es arbitrary: data w)
  case Nil
  then show ?case by simp
next
  case (Cons a es)
  obtain d pr where a: "a = (d, pr)" by (cases a)
  show ?case
  proof (cases "parse_prices pr")
    case (Inl e)
    with Cons.prems a show ?thesis by simp
  next
    case (Inr vals)
    with Cons.prems a have
      "append_entries env t es (data @ [make_quote t d vals (utcnow env (clock w))])
         (snd (datetime_utcnow env w)) = (r, data', w')"
      by (simp add: datetime_utcnow_def)
    from Cons.IH [OF this] show ?thesis by simp
  qed
qed

lemma fetch_company_frame:
  "fetch_company env c data w = (r, data', w') \<Longrightarrow>
     requests w' = requests w @ [ticker c] \<and> tables w' = tables w
     \<and> write_calls w' = write_calls w \<and> close_calls w' = close_calls w"
  unfolding fetch_company_def Let_def
  by (auto split: http_outcome.splits if_splits option.splits json_result.splits
      time_series.splits prod.splits dest!: append_entries_frame)

lemma fetch_loop_frame:
  "fetch_loop env cs data w = (r, data', w') \<Longrightarrow>
     tables w' = tables w \<and> write_calls w' = write_calls w \<and> close_calls w' = close_calls w"
proof (induction cs arbitrary: data w)
  case Nil
  then show ?case by simp
next
  case (Cons c cs)
  obtain r1 d1 w1 where f: "fetch_company env c data w = (r1, d1, w1)"
    by (cases "fetch_company env c data w") auto
  show ?case
  proof (cases r1)
    case None
    with Cons.prems f have "fetch_loop env cs d1 w1 = (r, data', w')" by simp
    from Cons.IH [OF this] fetch_company_frame [OF f] show ?thesis by simp
  next
    case (Some e)
    with Cons.prems f have "w' = w1" by simp
    with fetch_company_frame [OF f] show ?thesis by simp
  qed
qed

lemma fetch_stock_prices_frame:
  "tables (snd (fetch_stock_prices env p w)) = tables w"
  "write_calls (snd (fetch_stock_prices env p w)) = write_calls w"
  "close_calls (snd (fetch_stock_prices env p w)) = close_calls w"
  unfolding fetch_stock_prices_def fetch_try_def
  by (auto split: prod.splits option.splits dest!: fetch_loop_frame)

lemma fetch_stock_prices_Inr:
  "\<exists>df. fst (fetch_stock_prices env p w) = Inr df"
  unfolding fetch_stock_prices_def by (simp split: prod.splits)

lemma create_company_dimension_frame:
  "tables (snd (create_company_dimension env p w)) = tables w"
  "write_calls (snd (create_company_dimension env p w)) = write_calls w"
  "close_calls (snd (create_company_dimension env p w)) = close_calls w"
  "requests (snd (create_company_dimension env p w)) = requests w"
  by (simp_all add: create_company_dimension_def datetime_utcnow_def split: prod.splits)

lemma validate_data_frame:
  "tables (snd (validate_data df t w)) = tables w"
  "write_calls (snd (validate_data df t w)) = write_calls w"
  "close_calls (snd (validate_data df t w)) = close_calls w"
  "requests (snd (validate_data df t w)) = requests w"
  "clock (snd (validate_data df t w)) = clock w"
  by (simp_all add: validate_data_def Let_def)

lemma validate_data_fst: "fst (validate_data df t w) = (\<not> df_empty df)"
  by (simp add: validate_data_def Let_def)

lemma write_pandas_result:
  "fst (write_pandas env (Some ()) df tbl True False w) =
     (if write_raises env (length (write_calls w)) then Some WriteError else None)"
  by (simp add: write_pandas_def Let_def split: option.splits)

lemma write_pandas_frame:
  "write_calls (snd (write_pandas env conn df tbl a ov w)) = write_calls w @ [WritePandas df tbl a ov]"
  "close_calls (snd (write_pandas env conn df tbl a ov w)) = close_calls w"
  by (simp_all add: write_pandas_def Let_def split: option.splits)

lemma load_to_snowflake_fst:
  "sf_conn p = Some () \<Longrightarrow>
   fst (load_to_snowflake env p df t w) =
     (if write_raises env (length (write_calls w)) then Some WriteError else None)"
  using write_pandas_result [of env df "upper t" "logger INFO (Loading (length (rows df)) t) w"]
  by (auto simp: load_to_snowflake_def split: prod.splits option.splits if_splits)

lemma load_to_snowflake_frame:
  "write_calls (snd (load_to_snowflake env p df t w)) = write_calls w @ [WritePandas df (upper t) True False]"
  "close_calls (snd (load_to_snowflake env p df t w)) = close_calls w"
  using write_pandas_frame [of env "sf_conn p" df "upper t" True False "logger INFO (Loading (length (rows df)) t) w"]
  by (auto simp: load_to_snowflake_def split: prod.splits option.splits)


lemma upper_stg_companies: "upper ''stg_companies'' = ''STG_COMPANIES''"
  by code_simp

lemma upper_stg_stock_prices: "upper ''stg_stock_prices'' = ''STG_STOCK_PRICES''"
  by code_simp

lemma init_Inr:
  "init env w = (Inr p, w') \<Longrightarrow> sf_conn p = Some () \<and> companies p = static_companies"
  by (auto simp: init_def connect_snowflake_def split: if_splits)

lemma company_dimension_not_empty:
  "companies p = static_companies \<Longrightarrow> \<not> df_empty (fst (create_company_dimension env p w))"
  by (simp add: create_company_dimension_def df_empty_def static_companies_def
      split: prod.splits)

lemma load_companies_fst:
  "sf_conn p = Some () \<Longrightarrow> \<not> df_empty df \<Longrightarrow>
   fst (load_companies env p df w) =
     (if write_raises env (length (write_calls w)) then Some WriteError else None)"
  using validate_data_fst [of df "''stg_companies''" w]
    load_to_snowflake_fst [of p env df "''stg_companies''" "snd (validate_data df ''stg_companies'' w)"]
  by (simp add: load_companies_def case_prod_beta validate_data_frame)

lemma load_companies_frame:
  "\<not> df_empty df \<Longrightarrow>
   write_calls (snd (load_companies env p df w)) =
     write_calls w @ [WritePandas df ''STG_COMPANIES'' True False]"
  "close_calls (snd (load_companies env p df w)) = close_calls w"
  using validate_data_fst [of df "''stg_companies''" w]
  by (simp_all add: load_companies_def case_prod_beta validate_data_frame
      load_to_snowflake_frame upper_stg_companies split: bool.splits)

lemma load_mock_fst:
  "sf_conn p = Some () \<Longrightarrow>
   fst (load_mock env p w) =
     (if write_raises env (length (write_calls w)) then Some WriteError else None)"
  by (simp add: load_mock_def case_prod_beta load_to_snowflake_fst)

lemma load_mock_frame:
  "write_calls (snd (load_mock env p w)) =
     write_calls w @ [WritePandas (mock_prices (utcnow env (clock w))) ''STG_STOCK_PRICES'' True False]"
  "close_calls (snd (load_mock env p w)) = close_calls w"
  by (simp_all add: load_mock_def case_prod_beta load_to_snowflake_frame upper_stg_stock_prices)

lemma load_stock_prices_fst:
  "sf_conn p = Some () \<Longrightarrow>
   fst (load_stock_prices env p df w) =
     (if write_raises env (length (write_calls w)) then Some WriteError else None)"
  using validate_data_fst [of df "''stg_stock_prices''" w]
  by (simp add: load_stock_prices_def case_prod_beta load_mock_fst load_to_snowflake_fst
      validate_data_frame)

lemma load_stock_prices_frame:
  "write_calls (snd (load_stock_prices env p df w)) =
     write_calls w @
       [WritePandas (if df_empty df then mock_prices (utcnow env (clock w)) else df)
          ''STG_STOCK_PRICES'' True False]"
  "close_calls (snd (load_stock_prices env p df w)) = close_calls w"
  using validate_data_fst [of df "''stg_stock_prices''" w]
  by (simp_all add: load_stock_prices_def case_prod_beta load_mock_frame load_to_snowflake_frame
      validate_data_frame upper_stg_stock_prices)

lemma extract_frames_fields:
  "fst (extract_frames env p w) = fst (create_company_dimension env p w)"
  "\<exists>df. fst (snd (extract_frames env p w)) = Inr df"
  "write_calls (snd (snd (extract_frames env p w))) = write_calls w"
  "close_calls (snd (snd (extract_frames env p w))) = close_calls w"
  "tables (snd (snd (extract_frames env p w))) = tables w"
  using fetch_stock_prices_Inr [of env p "snd (create_company_dimension env p w)"]
  by (simp_all add: extract_frames_def case_prod_beta fetch_stock_prices_frame
      create_company_dimension_frame)

lemma start_banner_fields [simp]:
  "clock (start_banner w) = clock w"
  "requests (start_banner w) = requests w"
  "tables (start_banner w) = tables w"
  "write_calls (start_banner w) = write_calls w"
  "close_calls (start_banner w) = close_calls w"
  by (simp_all add: start_banner_def)

lemma run_try_fst:
  assumes "sf_conn p = Some ()" and "companies p = static_companies"
  shows "fst (run_try env p w) =
     (if write_raises env (length (write_calls w)) \<or> write_raises env (Suc (length (write_calls w)))
      then Some WriteError else None)"
proof -
  obtain cdf r w2 where x: "extract_frames env p (start_banner w) = (cdf, r, w2)"
    by (cases "extract_frames env p (start_banner w)") auto
  from extract_frames_fields(2) [of env p "start_banner w"] x obtain sdf where r: "r = Inr sdf"
    by auto
  from extract_frames_fields(1) [of env p "start_banner w"] x assms(2)
  have ne: "\<not> df_empty cdf"
    using company_dimension_not_empty [of p env "start_banner w"] by simp
  from extract_frames_fields(3) [of env p "start_banner w"] x
  have wc: "write_calls w2 = write_calls w" by simp
  show ?thesis
    using load_companies_fst [OF assms(1) ne, of env w2] load_companies_frame(1) [OF ne, of env p w2]
      load_stock_prices_fst [OF assms(1), of env sdf "snd (load_companies env p cdf w2)"]
    by (simp add: run_try_def x r wc case_prod_beta split: option.splits)
qed

lemma run_try_close_calls:
  "close_calls (snd (run_try env p w)) = close_calls w"
proof -
  obtain cdf r w2 where x: "extract_frames env p (start_banner w) = (cdf, r, w2)"
    by (cases "extract_frames env p (start_banner w)") auto
  from extract_frames_fields(4) [of env p "start_banner w"] x
  have "close_calls w2 = close_calls w" by simp
  then show ?thesis
    by (simp add: run_try_def x case_prod_beta load_companies_frame load_stock_prices_frame
        split: option.splits sum.splits)
qed

lemma fetch_loop_requests:
  "fetch_loop env cs data w = (r, data', w') \<Longrightarrow>
     \<exists>k. k \<le> length cs \<and> requests w' = requests w @ map ticker (take k cs)"
proof (induction cs arbitrary: data w)
  case Nil
  then show ?case by simp
next
  case (Cons c cs)
  obtain r1 d1 w1 where f: "fetch_company env c data w = (r1, d1, w1)"
    by (cases "fetch_company env c data w") auto
  from fetch_company_frame [OF f] have q: "requests w1 = requests w @ [ticker c]" by simp
  show ?case
  proof (cases r1)
    case None
    with Cons.prems f have "fetch_loop env cs d1 w1 = (r, data', w')" by simp
    from Cons.IH [OF this] obtain k where
      "k \<le> length cs" "requests w' = requests w1 @ map ticker (take k cs)" by blast
    with q have "Suc k \<le> length (c # cs) \<and> requests w' = requests w @ map ticker (take (Suc k) (c # cs))"
      by simp
    then show ?thesis by blast
  next
    case (Some e)
    with Cons.prems f have "w' = w1" by simp
    with q have "Suc 0 \<le> length (c # cs) \<and> requests w' = requests w @ map ticker (take (Suc 0) (c # cs))"
      by simp
    then show ?thesis by blast
  qed
qed

lemma fetch_company_not_200:
  assumes "http_get env (length (requests w)) (ticker c) = Response s b" and "s \<noteq> 200"
  shows "fetch_company env c data w =
           (None, data, logger WARNING (FailedToFetch (ticker c) s) (w\<lparr>requests := requests w @ [ticker c]\<rparr>))"
  using assms by (simp add: fetch_company_def Let_def)

lemma fetch_loop_all_not_200:
  assumes "\<forall>n t. \<exists>s b. http_get env n t = Response s b \<and> s \<noteq> 200"
  shows "\<exists>w'. fetch_loop env cs data w = (None, data, w')"
proof (induction cs arbitrary: w)
  case Nil
  show ?case by simp
next
  case (Cons c cs)
  from assms obtain s b where
    "http_get env (length (requests w)) (ticker c) = Response s b" "s \<noteq> 200" by blast
  from fetch_company_not_200 [OF this] Cons.IH show ?case by simp
qed

lemma write_pandas_tables:
  "fst (write_pandas env conn df tbl True False w) = None \<Longrightarrow>
     tables (snd (write_pandas env conn df tbl True False w)) =
       (tables w)(tbl \<mapsto> (case tables w tbl of None \<Rightarrow> rows df | Some old \<Rightarrow> old @ rows df))"
  "fst (write_pandas env conn df tbl True False w) \<noteq> None \<Longrightarrow>
     tables (snd (write_pandas env conn df tbl True False w)) = tables w"
  by (auto simp: write_pandas_def Let_def split: option.splits if_splits)

lemma load_to_snowflake_unfold:
  "fst (load_to_snowflake env p df t w) =
     fst (write_pandas env (sf_conn p) df (upper t) True False (logger INFO (Loading (length (rows df)) t) w))"
  "tables (snd (load_to_snowflake env p df t w)) =
     tables (snd (write_pandas env (sf_conn p) df (upper t) True False (logger INFO (Loading (length (rows df)) t) w)))"
  by (auto simp: load_to_snowflake_def split: prod.splits option.splits)

lemma run_try_write_calls:
  assumes "companies p = static_companies"
  shows "\<exists>rest. write_calls (snd (run_try env p w)) =
           write_calls w @
             WritePandas (fst (create_company_dimension env p (start_banner w))) ''STG_COMPANIES'' True False
               # rest"
proof -
  obtain cdf r w2 where x: "extract_frames env p (start_banner w) = (cdf, r, w2)"
    by (cases "extract_frames env p (start_banner w)") auto
  from extract_frames_fields(2) [of env p "start_banner w"] x obtain sdf where r: "r = Inr sdf"
    by auto
  from extract_frames_fields(1) [of env p "start_banner w"] x
  have c: "cdf = fst (create_company_dimension env p (start_banner w))" by simp
  with assms have ne: "\<not> df_empty cdf"
    using company_dimension_not_empty [of p env "start_banner w"] by simp
  from extract_frames_fields(3) [of env p "start_banner w"] x
  have wc: "write_calls w2 = write_calls w" by simp
  show ?thesis
    using load_companies_frame(1) [OF ne, of env p w2]
      load_stock_prices_frame(1) [of env p sdf "snd (load_companies env p cdf w2)"]
    by (simp add: run_try_def x r wc c [symmetric] case_prod_beta split: option.splits)
qed

lemma write_pandas_clock:
  "clock (snd (write_pandas env conn df tbl a ov w)) = clock w"
  by (simp add: write_pandas_def Let_def split: option.splits)

lemma load_to_snowflake_clock:
  "clock (snd (load_to_snowflake env p df t w)) = clock w"
  using write_pandas_clock [of env "sf_conn p" df "upper t" True False
      "logger INFO (Loading (length (rows df)) t) w"]
  by (auto simp: load_to_snowflake_def split: prod.splits option.splits)

lemma load_companies_clock:
  "clock (snd (load_companies env p df w)) = clock w"
  by (simp add: load_companies_def case_prod_beta validate_data_frame load_to_snowflake_clock
      split: bool.splits)

lemma load_to_snowflake_tables:
  "fst (load_to_snowflake env p df t w) = None \<Longrightarrow>
     tables (snd (load_to_snowflake env p df t w)) =
       (tables w)(upper t \<mapsto> (case tables w (upper t) of None \<Rightarrow> rows df | Some old \<Rightarrow> old @ rows df))"
  using write_pandas_tables(1) [of env "sf_conn p" df "upper t"
      "logger INFO (Loading (length (rows df)) t) w"]
  by (simp add: load_to_snowflake_unfold)

lemma load_companies_tables:
  assumes "fst (load_companies env p df w) = None" and "\<not> df_empty df"
  shows "tables (snd (load_companies env p df w)) ''STG_STOCK_PRICES'' = tables w ''STG_STOCK_PRICES''"
proof -
  have v: "fst (validate_data df ''stg_companies'' w) = True"
    using assms(2) by (simp add: validate_data_fst)
  with assms(1) have
    "fst (load_to_snowflake env p df ''stg_companies'' (snd (validate_data df ''stg_companies'' w))) = None"
    by (simp add: load_companies_def case_prod_beta)
  from load_to_snowflake_tables [OF this] v show ?thesis
    by (simp add: load_companies_def case_prod_beta upper_stg_companies validate_data_frame)
qed

lemma load_mock_tables:
  assumes "fst (load_mock env p w) = None"
  shows "tables (snd (load_mock env p w)) ''STG_STOCK_PRICES'' =
     Some ((case tables w ''STG_STOCK_PRICES'' of None \<Rightarrow> [] | Some old \<Rightarrow> old)
            @ rows (mock_prices (utcnow env (clock w))))"
proof -
  from assms have
    "fst (load_to_snowflake env p (mock_prices (utcnow env (clock w))) ''stg_stock_prices''
           (snd (datetime_utcnow env (logger WARNING SkippingStockPrices w)))) = None"
    by (simp add: load_mock_def case_prod_beta)
  from load_to_snowflake_tables [OF this] show ?thesis
    by (simp add: load_mock_def case_prod_beta upper_stg_stock_prices split: option.splits)
qed

lemma fetch_exhausted:
  "fst (fetch_stock_prices env_exhausted p w) = Inr DataFrame_empty"
  "fst (fetch_stock_prices env_write_fails p w) = Inr DataFrame_empty"
proof -
  have "\<forall>n t. \<exists>s b. http_get env_exhausted n t = Response s b \<and> s \<noteq> 200"
    by (simp add: env_exhausted_def)
  from fetch_loop_all_not_200 [OF this] obtain w' where
    "fetch_loop env_exhausted (take 2 (companies p)) [] (logger INFO FetchingStockPrices w) = (None, [], w')"
    by blast
  then show "fst (fetch_stock_prices env_exhausted p w) = Inr DataFrame_empty"
    by (simp add: fetch_stock_prices_def fetch_try_def)
  have "\<forall>n t. \<exists>s b. http_get env_write_fails n t = Response s b \<and> s \<noteq> 200"
    by (simp add: env_write_fails_def)
  from fetch_loop_all_not_200 [OF this] obtain w' where
    "fetch_loop env_write_fails (take 2 (companies p)) [] (logger INFO FetchingStockPrices w) = (None, [], w')"
    by blast
  then show "fst (fetch_stock_prices env_write_fails p w) = Inr DataFrame_empty"
    by (simp add: fetch_stock_prices_def fetch_try_def)
qed

lemma init_constructed:
  "\<not> connect_raises env \<Longrightarrow> init env w = (Inr constructed, logger INFO Connected w)"
  by (simp add: init_def connect_snowflake_def constructed_def)

lemma all_convert_simps [simp]:
  "all_convert [] = True"
  "all_convert ((d, pr) # es) = (\<not> isl (parse_prices pr) \<and> all_convert es)"
  by (simp_all add: all_convert_def)

lemma append_entries_result:
  "append_entries env t es data w = (r, data', w') \<Longrightarrow>
     \<exists>k. k \<le> length es \<and> all_convert (take k es)
        \<and> data' = data @ quotes_of_entries env t (clock w) (take k es)
        \<and> (r = None \<longrightarrow> k = length es)"
proof (induction es arbitrary: data w)
  case Nil
  then show ?case by simp
next
  case (Cons a es)
  obtain d pr where a: "a = (d, pr)" by (cases a)
  show ?case
  proof (cases "parse_prices pr")
    case (Inl e)
    with Cons.prems a have "data' = data" "r = Some e" by simp_all
    then have "0 \<le> length (a # es) \<and> all_convert (take 0 (a # es))
        \<and> data' = data @ quotes_of_entries env t (clock w) (take 0 (a # es))
        \<and> (r = None \<longrightarrow> 0 = length (a # es))"
      by simp
    then show ?thesis by blast
  next
    case (Inr vals)
    let ?q = "make_quote t d vals (utcnow env (clock w))"
    from Cons.prems a Inr have
      "append_entries env t es (data @ [?q]) (snd (datetime_utcnow env w)) = (r, data', w')"
      by (simp add: datetime_utcnow_def)
    from Cons.IH [OF this] obtain k where k: "k \<le> length es" "all_convert (take k es)"
      "data' = (data @ [?q]) @ quotes_of_entries env t (Suc (clock w)) (take k es)"
      "r = None \<longrightarrow> k = length es"
      by auto
    with a Inr have "Suc k \<le> length (a # es) \<and> all_convert (take (Suc k) (a # es))
        \<and> data' = data @ quotes_of_entries env t (clock w) (take (Suc k) (a # es))
        \<and> (r = None \<longrightarrow> Suc k = length (a # es))"
      by simp
    then show ?thesis by blast
  qed
qed

lemma append_entries_all_convert:
  "all_convert es \<Longrightarrow>
     fst (append_entries env t es data w) = None
     \<and> fst (snd (append_entries env t es data w)) = data @ quotes_of_entries env t (clock w) es"
proof (induction es arbitrary: data w)
  case Nil
  then show ?case by simp
next
  case (Cons a es)
  obtain d pr where a: "a = (d, pr)" by (cases a)
  from Cons.prems a obtain vals where v: "parse_prices pr = Inr vals" and r: "all_convert es"
    by (cases "parse_prices pr") auto
  from Cons.IH [OF r, of "data @ [make_quote t d vals (utcnow env (clock w))]"
      "snd (datetime_utcnow env w)"] a v
  show ?case by (simp add: datetime_utcnow_def)
qed

lemma fetch_company_entries:
  assumes "http_get env (length (requests w)) (ticker c) =
             Response 200 (Some (JsonObject (Some (TsEntries es)) note))"
  shows "fst (fetch_company env c data w) =
           fst (append_entries env (ticker c) (take 30 es) data (w\<lparr>requests := requests w @ [ticker c]\<rparr>))"
    and "fst (snd (fetch_company env c data w)) =
           fst (snd (append_entries env (ticker c) (take 30 es) data (w\<lparr>requests := requests w @ [ticker c]\<rparr>)))"
  using assms by (auto simp: fetch_company_def Let_def split: prod.splits option.splits)

lemma upt_shift: "[c..<c + Suc n] = c # [Suc c..<Suc c + n]"
  by (simp add: upt_conv_Cons del: upt_Suc)

lemma quotes_of_entries_ingested_at:
  "map ingested_at (quotes_of_entries env t c es) = map (utcnow env) [c..<c + length es]"
proof (induction es arbitrary: c)
  case Nil
  show ?case by simp
next
  case (Cons a es)
  obtain d pr where a: "a = (d, pr)" by (cases a)
  have "[c..<c + length (a # es)] = c # [Suc c..<Suc c + length es]"
    using upt_shift [of c "length es"] by simp
  with Cons.IH [of "Suc c"] a show ?case
    by (simp add: make_quote_def case_prod_beta del: upt_Suc)
qed

lemma quotes_of_entries_q_date:
  "map q_date (quotes_of_entries env t c es) = map fst es"
proof (induction es arbitrary: c)
  case Nil
  show ?case by simp
next
  case (Cons a es)
  obtain d pr where a: "a = (d, pr)" by (cases a)
  with Cons.IH [of "Suc c"] show ?case
    by (simp add: make_quote_def case_prod_beta)
qed

lemma quotes_of_entries_length:
  "length (quotes_of_entries env t c es) = length es"
  using quotes_of_entries_q_date [of env t c es] by (metis length_map)

lemma filter_same_key:
  "distinct (map f xs) \<Longrightarrow> k \<in> set xs \<Longrightarrow> filter (\<lambda>x. f k = f x) xs = [k]"
proof (induction xs)
  case Nil
  then show ?case by simp
next
  case (Cons a xs)
  show ?case
  proof (cases "k = a")
    case True
    from Cons.prems(1) have "\<forall>x \<in> set xs. f a \<noteq> f x" by auto
    then have "filter (\<lambda>x. f a = f x) xs = []" by (simp add: filter_empty_conv)
    with True show ?thesis by simp
  next
    case False
    with Cons.prems have k: "k \<in> set xs" and d: "distinct (map f xs)" by auto
    from Cons.prems(1) have "f a \<notin> set (map f xs)" by simp
    moreover from k have "f k \<in> set (map f xs)" by simp
    ultimately have "f k \<noteq> f a" by metis
    with Cons.IH [OF d k] show ?thesis by simp
  qed
qed

lemma sort_key_newest_first:
  assumes "sorted (rev (map f xs))" and "distinct (map f xs)"
  shows "rev (sort_key f xs) = xs"
proof -
  have "sort_key f xs = rev xs"
  proof (rule properties_for_sort_key)
    show "mset (rev xs) = mset xs" by simp
  next
    fix k assume "k \<in> set (rev xs)"
    then have k: "k \<in> set xs" by simp
    from assms(2) have d: "distinct (map f (rev xs))" by (simp add: rev_map [symmetric])
    from filter_same_key [OF d] k have "filter (\<lambda>x. f k = f x) (rev xs) = [k]" by simp
    with filter_same_key [OF assms(2) k]
    show "filter (\<lambda>x. f k = f x) (rev xs) = filter (\<lambda>x. f k = f x) xs" by simp
  next
    from assms(1) show "sorted (map f (rev xs))" by (simp add: rev_map)
  qed
  then show ?thesis by simp
qed

lemma most_recent_newest_first:
  "sorted (rev (map fst es)) \<Longrightarrow> distinct (map fst es) \<Longrightarrow> most_recent n es = take n es"
  by (simp add: most_recent_def sort_key_newest_first)

lemma all_convert_two_days: "all_convert two_days"
  by (simp add: two_days_def good_prices_def)

lemma january_dates:
  "map fst january =
     [''2025-01-01'', ''2025-01-02'', ''2025-01-03'', ''2025-01-04'', ''2025-01-05'',
      ''2025-01-06'', ''2025-01-07'', ''2025-01-08'', ''2025-01-09'', ''2025-01-10'',
      ''2025-01-11'', ''2025-01-12'', ''2025-01-13'', ''2025-01-14'', ''2025-01-15'',
      ''2025-01-16'', ''2025-01-17'', ''2025-01-18'', ''2025-01-19'', ''2025-01-20'',
      ''2025-01-21'', ''2025-01-22'', ''2025-01-23'', ''2025-01-24'', ''2025-01-25'',
      ''2025-01-26'', ''2025-01-27'', ''2025-01-28'', ''2025-01-29'', ''2025-01-30'',
      ''2025-01-31'']"
  by (simp add: january_def)

lemma january_sorted: "sorted (map fst january)"
  unfolding january_dates by (simp del: sorted_wrt.simps add: sorted_wrt2_simps)

lemma january_all_convert: "all_convert january"
  by (simp add: january_def good_prices_def)

lemma january_most_recent: "map fst (most_recent 30 january) = take 30 (rev (map fst january))"
  by (simp add: most_recent_def sort_key_id_if_sorted [OF january_sorted] take_map rev_map)

lemma fetch_company_data_prefix:
  "\<exists>new. fst (snd (fetch_company env c data w)) = data @ new"
proof -
  let ?w1 = "w\<lparr>requests := requests w @ [ticker c]\<rparr>"
  have a: "\<exists>new. fst (snd (append_entries env (ticker c) es data ?w1)) = data @ new" for es
  proof -
    obtain r data' w' where x: "append_entries env (ticker c) es data ?w1 = (r, data', w')"
      by (cases "append_entries env (ticker c) es data ?w1") auto
    from append_entries_result [OF x] show ?thesis
      by (auto simp: x)
  qed
  show ?thesis
  proof (cases "http_get env (length (requests w)) (ticker c)")
    case GetRaises
    then show ?thesis by (simp add: fetch_company_def Let_def)
  next
    case (Response s b)
    show ?thesis
    proof (cases "\<exists>es note. s = 200 \<and> b = Some (JsonObject (Some (TsEntries es)) note)")
      case True
      then obtain es nt where
        "http_get env (length (requests w)) (ticker c) =
           Response 200 (Some (JsonObject (Some (TsEntries es)) nt))"
        using Response by auto
      from fetch_company_entries(2) [OF this, of data] a [of "take 30 es"] show ?thesis
        by simp
    next
      case False
      with Response show ?thesis
        by (auto simp: fetch_company_def Let_def
            split: option.splits json_result.splits time_series.splits)
    qed
  qed
qed

lemma append_entries_sf_calls:
  "append_entries env t es data w = (r, data', w') \<Longrightarrow> sf_calls w' = sf_calls w"
proof (induction es arbitrary: data w)
  case Nil
  then show ?case by simp
next
  case (Cons a es)
  obtain d pr where a: "a = (d, pr)" by (cases a)
  show ?case
  proof (cases "parse_prices pr")
    case (Inl e)
    with Cons.prems a show ?thesis by simp
  next
    case (Inr vals)
    with Cons.prems a have
      "append_entries env t es (data @ [make_quote t d vals (utcnow env (clock w))])
         (snd (datetime_utcnow env w)) = (r, data', w')"
      by (simp add: datetime_utcnow_def)
    from Cons.IH [OF this] show ?thesis by simp
  qed
qed

lemma fetch_company_sf_calls:
  "fetch_company env c data w = (r, data', w') \<Longrightarrow> sf_calls w' = sf_calls w"
  unfolding fetch_company_def Let_def
  by (auto split: http_outcome.splits if_splits option.splits json_result.splits
      time_series.splits prod.splits dest!: append_entries_sf_calls)

lemma fetch_loop_sf_calls:
  "fetch_loop env cs data w = (r, data', w') \<Longrightarrow> sf_calls w' = sf_calls w"
proof (induction cs arbitrary: data w)
  case Nil
  then show ?case by simp
next
  case (Cons c cs)
  obtain r1 d1 w1 where f: "fetch_company env c data w = (r1, d1, w1)"
    by (cases "fetch_company env c data w") auto
  show ?case
  proof (cases r1)
    case None
    with Cons.prems f have "fetch_loop env cs d1 w1 = (r, data', w')" by simp
    from Cons.IH [OF this] fetch_company_sf_calls [OF f] show ?thesis by simp
  next
    case (Some e)
    with Cons.prems f have "w' = w1" by simp
    with fetch_company_sf_calls [OF f] show ?thesis by simp
  qed
qed

lemma fetch_stock_prices_sf_calls:
  "sf_calls (snd (fetch_stock_prices env p w)) = sf_calls w"
  unfolding fetch_stock_prices_def fetch_try_def
  by (auto split: prod.splits option.splits dest!: fetch_loop_sf_calls)

lemma create_company_dimension_sf_calls:
  "sf_calls (snd (create_company_dimension env p w)) = sf_calls w"
  by (simp add: create_company_dimension_def datetime_utcnow_def split: prod.splits)

lemma validate_data_sf_calls:
  "sf_calls (snd (validate_data df t w)) = sf_calls w"
  by (simp add: validate_data_def Let_def)

lemma write_pandas_sf_calls:
  "sf_calls (snd (write_pandas env conn df tbl a ov w)) = sf_calls w @ [WritePandas df tbl a ov]"
  by (simp add: write_pandas_def Let_def split: option.splits)

lemma load_to_snowflake_sf_calls:
  "sf_calls (snd (load_to_snowflake env p df t w)) =
     sf_calls w @ [WritePandas df (upper t) True False]"
  using write_pandas_sf_calls [of env "sf_conn p" df "upper t" True False
      "logger INFO (Loading (length (rows df)) t) w"]
  by (auto simp: load_to_snowflake_def split: prod.splits option.splits)

lemma load_companies_sf_calls:
  "\<not> df_empty df \<Longrightarrow>
   sf_calls (snd (load_companies env p df w)) =
     sf_calls w @ [WritePandas df ''STG_COMPANIES'' True False]"
  using validate_data_fst [of df "''stg_companies''" w]
  by (simp add: load_companies_def case_prod_beta validate_data_sf_calls
      load_to_snowflake_sf_calls upper_stg_companies split: bool.splits)

lemma load_mock_sf_calls:
  "sf_calls (snd (load_mock env p w)) =
     sf_calls w @ [WritePandas (mock_prices (utcnow env (clock w))) ''STG_STOCK_PRICES'' True False]"
  by (simp add: load_mock_def case_prod_beta load_to_snowflake_sf_calls upper_stg_stock_prices)

lemma load_stock_prices_sf_calls:
  "sf_calls (snd (load_stock_prices env p df w)) =
     sf_calls w @
       [WritePandas (if df_empty df then mock_prices (utcnow env (clock w)) else df)
          ''STG_STOCK_PRICES'' True False]"
  using validate_data_fst [of df "''stg_stock_prices''" w]
  by (simp add: load_stock_prices_def case_prod_beta load_mock_sf_calls load_to_snowflake_sf_calls
      validate_data_sf_calls validate_data_frame upper_stg_stock_prices)

lemma extract_frames_sf_calls:
  "sf_calls (snd (snd (extract_frames env p w))) = sf_calls w"
  by (simp add: extract_frames_def case_prod_beta fetch_stock_prices_sf_calls
      create_company_dimension_sf_calls)

lemma start_banner_sf_calls [simp]:
  "sf_calls (start_banner w) = sf_calls w"
  by (simp add: start_banner_def)

lemma run_try_sf_calls:
  assumes "sf_conn p = Some ()" and "companies p = static_companies"
    and "extract_frames env p (start_banner w) = (cdf, Inr sdf, w2)"
  shows "sf_calls (snd (run_try env p w)) =
     sf_calls w @
       WritePandas cdf ''STG_COMPANIES'' True False #
       (if write_raises env (length (write_calls w)) then []
        else [WritePandas (if df_empty sdf then mock_prices (utcnow env (clock w2)) else sdf)
                ''STG_STOCK_PRICES'' True False])"
proof -
  from extract_frames_fields(1) [of env p "start_banner w"] assms(2,3)
  have ne: "\<not> df_empty cdf"
    using company_dimension_not_empty [of p env "start_banner w"] by simp
  from extract_frames_fields(3) [of env p "start_banner w"] assms(3)
  have wc: "write_calls w2 = write_calls w" by simp
  from extract_frames_sf_calls [of env p "start_banner w"] assms(3)
  have sc: "sf_calls w2 = sf_calls w" by simp
  show ?thesis
    using load_companies_fst [OF assms(1) ne, of env w2] load_companies_sf_calls [OF ne, of env p w2]
      load_stock_prices_sf_calls [of env p sdf "snd (load_companies env p cdf w2)"]
      load_companies_clock [of env p cdf w2]
    by (simp add: run_try_def assms(3) wc sc case_prod_beta split: option.splits)
qed

lemma run_except_sf_calls:
  "sf_calls (snd (run_except env p w)) = sf_calls (snd (run_try env p w))"
  by (simp add: run_except_def case_prod_beta split: option.splits)

lemma load_companies_tables_raises:
  "fst (load_companies env p df w) \<noteq> None \<Longrightarrow>
     tables (snd (load_companies env p df w)) = tables w"
  using write_pandas_tables(2) [of env "sf_conn p" df "upper ''stg_companies''"
      "logger INFO (Loading (length (rows df)) ''stg_companies'') (snd (validate_data df ''stg_companies'' w))"]
  by (simp add: load_companies_def case_prod_beta load_to_snowflake_unfold validate_data_frame
      split: bool.splits)

lemma load_mock_tables_raises:
  "fst (load_mock env p w) \<noteq> None \<Longrightarrow> tables (snd (load_mock env p w)) = tables w"
  using write_pandas_tables(2) [of env "sf_conn p" "mock_prices (utcnow env (clock w))"
      "upper ''stg_stock_prices''"
      "logger INFO (Loading (length (rows (mock_prices (utcnow env (clock w))))) ''stg_stock_prices'')
         (snd (datetime_utcnow env (logger WARNING SkippingStockPrices w)))"]
  by (simp add: load_mock_def case_prod_beta load_to_snowflake_unfold)

lemma fetch_all_not_200:
  assumes "\<forall>n t. \<exists>s b. http_get env n t = Response s b \<and> s \<noteq> 200"
  shows "fst (fetch_stock_prices env p w) = Inr DataFrame_empty"
proof -
  from fetch_loop_all_not_200 [OF assms] obtain w' where
    "fetch_loop env (take 2 (companies p)) [] (logger INFO FetchingStockPrices w) = (None, [], w')"
    by blast
  then show ?thesis
    by (simp add: fetch_stock_prices_def fetch_try_def)
qed

lemma extract_frames_all_not_200:
  assumes "\<forall>n t. \<exists>s b. http_get env n t = Response s b \<and> s \<noteq> 200"
  shows "extract_frames env p w =
           (fst (extract_frames env p w), Inr DataFrame_empty, snd (snd (extract_frames env p w)))"
proof -
  have "fst (snd (extract_frames env p w)) = Inr DataFrame_empty"
    by (simp add: extract_frames_def case_prod_beta fetch_all_not_200 [OF assms])
  then show ?thesis
    by (metis prod.collapse)
qed

lemma append_entries_raises:
  "append_entries env t es data w = (Some e, data', w') \<Longrightarrow>
     \<exists>k. k < length es \<and> all_convert (take k es) \<and> parse_prices (snd (es ! k)) = Inl e
        \<and> data' = data @ quotes_of_entries env t (clock w) (take k es)"
proof (induction es arbitrary: data w)
  case Nil
  then show ?case by simp
next
  case (Cons a es)
  obtain d pr where a: "a = (d, pr)" by (cases a)
  show ?case
  proof (cases "parse_prices pr")
    case (Inl x)
    with Cons.prems a have "data' = data" "x = e" by simp_all
    with Inl a have "0 < length (a # es) \<and> all_convert (take 0 (a # es))
        \<and> parse_prices (snd ((a # es) ! 0)) = Inl e
        \<and> data' = data @ quotes_of_entries env t (clock w) (take 0 (a # es))"
      by simp
    then show ?thesis by blast
  next
    case (Inr vals)
    let ?q = "make_quote t d vals (utcnow env (clock w))"
    from Cons.prems a Inr have
      "append_entries env t es (data @ [?q]) (snd (datetime_utcnow env w)) = (Some e, data', w')"
      by (simp add: datetime_utcnow_def)
    from Cons.IH [OF this] obtain k where k: "k < length es" "all_convert (take k es)"
      "parse_prices (snd (es ! k)) = Inl e"
      "data' = (data @ [?q]) @ quotes_of_entries env t (Suc (clock w)) (take k es)"
      by auto
    with a Inr have "Suc k < length (a # es) \<and> all_convert (take (Suc k) (a # es))
        \<and> parse_prices (snd ((a # es) ! Suc k)) = Inl e
        \<and> data' = data @ quotes_of_entries env t (clock w) (take (Suc k) (a # es))"
      by simp
    then show ?thesis by blast
  qed
qed

lemma fetch_company_raises_in_entries:
  assumes "http_get env (length (requests w)) (ticker c) =
             Response 200 (Some (JsonObject (Some (TsEntries es)) note))"
    and "fst (fetch_company env c data w) = Some e"
  shows "\<exists>k. k < min 30 (length es) \<and> all_convert (take k es)
          \<and> parse_prices (snd (es ! k)) = Inl e
          \<and> fst (snd (fetch_company env c data w)) =
              data @ quotes_of_entries env (ticker c) (clock w) (take k es)"
proof -
  let ?w1 = "w\<lparr>requests := requests w @ [ticker c]\<rparr>"
  let ?a = "append_entries env (ticker c) (take 30 es) data ?w1"
  obtain r data' w' where a: "?a = (r, data', w')"
    by (cases ?a) auto
  from fetch_company_entries(1) [OF assms(1), of data] assms(2) a have r: "r = Some e" by simp
  from append_entries_raises [OF a [unfolded r]] obtain k where k: "k < length (take 30 es)"
    "all_convert (take k (take 30 es))" "parse_prices (snd (take 30 es ! k)) = Inl e"
    "data' = data @ quotes_of_entries env (ticker c) (clock ?w1) (take k (take 30 es))"
    by blast
  from k(1) have k30: "k < 30" and km: "k < min 30 (length es)" by simp_all
  from k30 have tk: "take k (take 30 es) = take k es" by (simp add: min_absorb1)
  from k30 have nk: "take 30 es ! k = es ! k" by simp
  from k tk nk a fetch_company_entries(2) [OF assms(1), of data] km
  have "k < min 30 (length es) \<and> all_convert (take k es)
          \<and> parse_prices (snd (es ! k)) = Inl e
          \<and> fst (snd (fetch_company env c data w)) =
              data @ quotes_of_entries env (ticker c) (clock w) (take k es)"
    by simp
  then show ?thesis by blast
qed

lemma fetch_company_raises_elsewhere:
  assumes "fst (fetch_company env c data w) = Some e"
    and "\<forall>es note. http_get env (length (requests w)) (ticker c) \<noteq>
            Response 200 (Some (JsonObject (Some (TsEntries es)) note))"
  shows "fst (snd (fetch_company env c data w)) = data"
  using assms
  by (auto simp: fetch_company_def Let_def
      split: http_outcome.splits option.splits json_result.splits time_series.splits if_splits)

section \<open>The claims\<close>

text \<open>
  C9. The static catalog has exactly five company records, their tickers are pairwise
  distinct, and their order is fixed: it is the list literal of the constructor, which
  depends on no input, so every constructed pipeline holds the same list in the same
  order, and building it cannot fail.
\<close>

theorem static_catalog:
  "length static_companies = 5
   \<and> distinct (map ticker static_companies)
   \<and> map ticker static_companies = [''AAPL'', ''JPM'', ''JNJ'', ''PG'', ''XOM'']
   \<and> (init env w = (Inr p, w') \<longrightarrow> companies p = static_companies)"
  by (auto simp: static_companies_def dest: init_Inr)

theorem static_catalog_witness:
  "init env_exhausted world0 = (Inr constructed, logger INFO Connected world0)
   \<and> companies constructed = static_companies"
  using static_catalog [of env_exhausted world0 constructed "logger INFO Connected world0"]
  by (simp add: init_def connect_snowflake_def env_exhausted_def constructed_def)

text \<open>
  C4. \<open>validate_data\<close> returns false on an empty frame, after logging a warning, and
  returns true on every frame that is not empty, whatever its cells are: the null
  counts only add a warning line to the log.
\<close>

theorem validate_data_result:
  "(df_empty df \<longrightarrow>
      validate_data df table_name w =
        (False,
         w\<lparr>logged := logged w @
              [(INFO, Validating table_name), (WARNING, EmptyDataframe table_name)]\<rparr>))
   \<and> (\<not> df_empty df \<longrightarrow>
      validate_data df table_name w =
        (True,
         w\<lparr>logged := logged w @ [(INFO, Validating table_name)] @
              (if 0 < sum_list (map snd (isnull_sum df))
               then [(WARNING,
                      NullValuesDetected table_name (filter (\<lambda>(c, n). 0 < n) (isnull_sum df)))]
               else []) @
              [(INFO, ValidationPassed table_name (length (rows df)))]\<rparr>))"
  by (simp add: validate_data_def logger_def Let_def)

theorem validate_data_result_witness:
  "df_empty DataFrame_empty
   \<and> fst (validate_data DataFrame_empty ''x'' world0) = False
   \<and> \<not> df_empty \<lparr>columns = [''a'', ''b''], rows = [[CNull, CFloat NaN]]\<rparr>
   \<and> fst (validate_data \<lparr>columns = [''a'', ''b''], rows = [[CNull, CFloat NaN]]\<rparr> ''x'' world0) = True"
  using validate_data_result [of DataFrame_empty "''x''" world0]
    validate_data_result [of "\<lparr>columns = [''a'', ''b''], rows = [[CNull, CFloat NaN]]\<rparr>" "''x''" world0]
  by (simp add: df_empty_def DataFrame_empty_def)

text \<open>
  C2. A run of \<open>run_pipeline\<close> on a constructed pipeline closes the warehouse
  connection exactly once, and the \<open>close\<close> is the last call the run makes on the
  connection: the calls of the run are its \<open>write_pandas\<close> calls (one when the company
  load raises, two otherwise), none of them a \<open>close\<close>, followed by the one \<open>close\<close>.
  This holds on both ways out: when a load raises (the first write of the run, for the
  companies, or the second, for the quotes), the exception is raised again to the
  caller, and the connection is closed all the same.
\<close>

theorem run_pipeline_closes_once:
  assumes "init env w0 = (Inr p, w)"
  shows "close_calls (snd (run_pipeline env p w)) = Suc (close_calls w)
    \<and> (\<exists>ws. sf_calls (snd (run_pipeline env p w)) = sf_calls w @ ws @ [Close]
           \<and> Close \<notin> set ws
           \<and> write_calls (snd (run_pipeline env p w)) = write_calls w @ ws
           \<and> length ws = (if write_raises env (length (write_calls w)) then 1 else 2))
    \<and> fst (run_pipeline env p w) =
        (if write_raises env (length (write_calls w)) \<or> write_raises env (Suc (length (write_calls w)))
         then Inl WriteError else Inr ())"
proof -
  from init_Inr [OF assms] have c: "sf_conn p = Some ()" and s: "companies p = static_companies"
    by simp_all
  obtain cdf r w2 where x: "extract_frames env p (start_banner w) = (cdf, r, w2)"
    by (cases "extract_frames env p (start_banner w)") auto
  from extract_frames_fields(2) [of env p "start_banner w"] x obtain sdf where r: "r = Inr sdf"
    by auto
  let ?ws = "WritePandas cdf ''STG_COMPANIES'' True False #
       (if write_raises env (length (write_calls w)) then []
        else [WritePandas (if df_empty sdf then mock_prices (utcnow env (clock w2)) else sdf)
                ''STG_STOCK_PRICES'' True False])"
  have t: "sf_calls (snd (run_pipeline env p w)) = sf_calls w @ ?ws @ [Close]"
    using run_try_sf_calls [OF c s x [unfolded r]]
    by (simp add: run_pipeline_def case_prod_beta c sf_close_def run_except_sf_calls)
  have n: "Close \<notin> set ?ws" by simp
  have l: "length ?ws = (if write_raises env (length (write_calls w)) then 1 else 2)" by simp
  have wc: "write_calls (snd (run_pipeline env p w)) = write_calls w @ ?ws"
    using t by (simp add: write_calls_def)
  have cc: "close_calls (snd (run_pipeline env p w)) = Suc (close_calls w)"
    using t by (simp add: close_calls_def)
  have res: "fst (run_pipeline env p w) =
        (if write_raises env (length (write_calls w)) \<or> write_raises env (Suc (length (write_calls w)))
         then Inl WriteError else Inr ())"
    using run_try_fst [OF c s, of env w]
    by (simp add: run_pipeline_def run_except_def case_prod_beta split: option.splits if_splits)
  from t n l wc have "\<exists>ws. sf_calls (snd (run_pipeline env p w)) = sf_calls w @ ws @ [Close]
           \<and> Close \<notin> set ws
           \<and> write_calls (snd (run_pipeline env p w)) = write_calls w @ ws
           \<and> length ws = (if write_raises env (length (write_calls w)) then 1 else 2)"
    by blast
  with cc res show ?thesis by simp
qed

theorem run_pipeline_closes_once_witness:
  "init env_write_fails world0 = (Inr constructed, logger INFO Connected world0)
   \<and> close_calls (snd (run_pipeline env_write_fails constructed (logger INFO Connected world0))) = 1
   \<and> (\<exists>ws. sf_calls (snd (run_pipeline env_write_fails constructed (logger INFO Connected world0)))
              = ws @ [Close]
           \<and> Close \<notin> set ws \<and> length ws = 1)
   \<and> fst (run_pipeline env_write_fails constructed (logger INFO Connected world0)) = Inl WriteError"
proof -
  have i: "init env_write_fails world0 = (Inr constructed, logger INFO Connected world0)"
    by (simp add: init_def connect_snowflake_def env_write_fails_def constructed_def)
  have z: "sf_calls (logger INFO Connected world0) = []" "write_calls (logger INFO Connected world0) = []"
    "close_calls (logger INFO Connected world0) = 0" "write_raises env_write_fails 0"
    by (simp_all add: world0_def env_write_fails_def)
  from run_pipeline_closes_once [OF i] i z show ?thesis
    by simp
qed

text \<open>
  C3. \<open>fetch_stock_prices\<close> never raises: whatever the environment answers, it
  returns a frame. When every response has a status code other than 200, the frame it
  returns is the empty one.
\<close>

theorem fetch_never_raises:
  "(\<exists>df. fst (fetch_stock_prices env p w) = Inr df)
   \<and> ((\<forall>n t. \<exists>s b. http_get env n t = Response s b \<and> s \<noteq> 200) \<longrightarrow>
        fst (fetch_stock_prices env p w) = Inr DataFrame_empty)"
proof (intro conjI impI)
  show "\<exists>df. fst (fetch_stock_prices env p w) = Inr df"
    by (rule fetch_stock_prices_Inr)
next
  assume a: "\<forall>n t. \<exists>s b. http_get env n t = Response s b \<and> s \<noteq> 200"
  from fetch_loop_all_not_200 [OF a] obtain w' where
    "fetch_loop env (take 2 (companies p)) [] (logger INFO FetchingStockPrices w) = (None, [], w')"
    by blast
  then show "fst (fetch_stock_prices env p w) = Inr DataFrame_empty"
    by (simp add: fetch_stock_prices_def fetch_try_def)
qed

theorem fetch_never_raises_witness:
  "(\<forall>n t. \<exists>s b. http_get env_exhausted n t = Response s b \<and> s \<noteq> 200)
   \<and> fst (fetch_stock_prices env_exhausted constructed world0) = Inr DataFrame_empty"
proof -
  have h: "\<forall>n t. \<exists>s b. http_get env_exhausted n t = Response s b \<and> s \<noteq> 200"
    by (simp add: env_exhausted_def)
  from fetch_never_raises [of env_exhausted constructed world0] h show ?thesis
    by simp
qed

text \<open>
  C6. Whatever the catalog of the pipeline is, \<open>fetch_stock_prices\<close> sends at most two
  requests, and they are for the first entries of the catalog, in order: an entry
  beyond the second is never queried.
\<close>

theorem fetch_queries_first_two:
  "\<exists>k. k \<le> 2 \<and>
     requests (snd (fetch_stock_prices env p w)) = requests w @ map ticker (take k (companies p))"
proof -
  obtain r data w2 where f: "fetch_try env p w = (r, data, w2)"
    by (cases "fetch_try env p w") auto
  then have "fetch_loop env (take 2 (companies p)) [] (logger INFO FetchingStockPrices w) = (r, data, w2)"
    by (simp add: fetch_try_def)
  from fetch_loop_requests [OF this] obtain k where
    k: "k \<le> length (take 2 (companies p))"
    and q: "requests w2 = requests w @ map ticker (take k (take 2 (companies p)))"
    by auto
  from k have k2: "k \<le> 2" by simp
  then have "take k (take 2 (companies p)) = take k (companies p)"
    by (simp add: min_def)
  with q have "requests w2 = requests w @ map ticker (take k (companies p))" by simp
  moreover have "requests (snd (fetch_stock_prices env p w)) = requests w2"
    by (simp add: fetch_stock_prices_def f split: option.splits)
  ultimately show ?thesis using k2 by auto
qed

text \<open>
  C8. Every load calls \<open>write_pandas\<close> once, with the uppercased table name
  (\<open>STG_COMPANIES\<close> and \<open>STG_STOCK_PRICES\<close> for the two names of this program),
  with \<open>auto_create_table\<close> set and \<open>overwrite\<close> not set. When the write succeeds,
  the table of that name holds the rows it held before followed by the rows of the
  frame, and an absent table is created with the rows of the frame; when the write
  raises, no table changes.
\<close>

theorem load_to_snowflake_appends:
  "write_calls (snd (load_to_snowflake env p df table_name w)) =
     write_calls w @ [WritePandas df (upper table_name) True False]
   \<and> (fst (load_to_snowflake env p df table_name w) = None \<longrightarrow>
        tables (snd (load_to_snowflake env p df table_name w)) =
          (tables w)(upper table_name \<mapsto>
             (case tables w (upper table_name) of None \<Rightarrow> rows df | Some old \<Rightarrow> old @ rows df)))
   \<and> (fst (load_to_snowflake env p df table_name w) \<noteq> None \<longrightarrow>
        tables (snd (load_to_snowflake env p df table_name w)) = tables w)
   \<and> upper ''stg_companies'' = ''STG_COMPANIES''
   \<and> upper ''stg_stock_prices'' = ''STG_STOCK_PRICES''"
  using write_pandas_tables [of env "sf_conn p" df "upper table_name"
      "logger INFO (Loading (length (rows df)) table_name) w"]
  by (simp add: load_to_snowflake_frame load_to_snowflake_unfold upper_stg_companies
      upper_stg_stock_prices)

theorem load_to_snowflake_appends_witness:
  "fst (load_to_snowflake env_exhausted constructed one_row ''t'' world0) = None
   \<and> tables (snd (load_to_snowflake env_exhausted constructed one_row ''t'' world0)) ''T''
       = Some [[CStr ''AAPL'']]
   \<and> fst (load_to_snowflake env_exhausted constructed one_row ''t''
            (world0\<lparr>tables := [''T'' \<mapsto> [[CStr ''JPM'']]]\<rparr>)) = None
   \<and> tables (snd (load_to_snowflake env_exhausted constructed one_row ''t''
            (world0\<lparr>tables := [''T'' \<mapsto> [[CStr ''JPM'']]]\<rparr>))) ''T''
       = Some [[CStr ''JPM''], [CStr ''AAPL'']]
   \<and> fst (load_to_snowflake env_write_fails constructed one_row ''t'' world0) \<noteq> None
   \<and> tables (snd (load_to_snowflake env_write_fails constructed one_row ''t'' world0)) ''T'' = None"
proof -
  have u: "upper ''t'' = ''T''" by code_simp
  have a: "fst (load_to_snowflake env_exhausted constructed one_row ''t'' world0) = None"
    by (simp add: load_to_snowflake_fst constructed_def env_exhausted_def)
  have b: "fst (load_to_snowflake env_exhausted constructed one_row ''t''
            (world0\<lparr>tables := [''T'' \<mapsto> [[CStr ''JPM'']]]\<rparr>)) = None"
    by (simp add: load_to_snowflake_fst constructed_def env_exhausted_def)
  have c: "fst (load_to_snowflake env_write_fails constructed one_row ''t'' world0) \<noteq> None"
    by (simp add: load_to_snowflake_fst constructed_def env_write_fails_def world0_def)
  from a b c u
    load_to_snowflake_appends [of env_exhausted constructed one_row "''t''" world0]
    load_to_snowflake_appends [of env_exhausted constructed one_row "''t''"
      "world0\<lparr>tables := [''T'' \<mapsto> [[CStr ''JPM'']]]\<rparr>"]
    load_to_snowflake_appends [of env_write_fails constructed one_row "''t''" world0]
  show ?thesis
    by (simp add: world0_def one_row_def)
qed

text \<open>
  C10. For a constructed pipeline, the company frame is never empty and has no null
  cell (the null count of every column is 0), so its validation returns true, and
  every run calls \<open>write_pandas\<close> for \<open>STG_COMPANIES\<close> with that frame as its first
  write: the branch that skips the load of the dimension is never taken.
\<close>

theorem company_dimension_always_loaded:
  assumes "init env w0 = (Inr p, w)"
  shows "\<not> df_empty (fst (create_company_dimension env p w1))
    \<and> list_all (\<lambda>r. list_all (\<lambda>c. \<not> is_null c) r) (rows (fst (create_company_dimension env p w1)))
    \<and> sum_list (map snd (isnull_sum (fst (create_company_dimension env p w1)))) = 0
    \<and> fst (validate_data (fst (create_company_dimension env p w1)) ''stg_companies'' w2) = True
    \<and> (\<exists>rest. write_calls (snd (run_pipeline env p w)) =
          write_calls w @
            WritePandas (fst (create_company_dimension env p (start_banner w))) ''STG_COMPANIES'' True False
              # rest)"
proof -
  from init_Inr [OF assms] have c: "sf_conn p = Some ()" and s: "companies p = static_companies"
    by simp_all
  have ne: "\<not> df_empty (fst (create_company_dimension env p w1))"
    by (rule company_dimension_not_empty [OF s])
  have nn: "list_all (\<lambda>r. list_all (\<lambda>c. \<not> is_null c) r) (rows (fst (create_company_dimension env p w1)))"
    by (simp add: create_company_dimension_def s static_companies_def case_prod_beta)
  have z: "sum_list (map snd (isnull_sum (fst (create_company_dimension env p w1)))) = 0"
    by (simp add: create_company_dimension_def s static_companies_def case_prod_beta
        isnull_sum_def cell_at_def)
  have v: "fst (validate_data (fst (create_company_dimension env p w1)) ''stg_companies'' w2) = True"
    using ne by (simp add: validate_data_fst)
  have "write_calls (snd (run_pipeline env p w)) = write_calls (snd (run_try env p w))"
    by (simp add: run_pipeline_def run_except_def sf_close_def case_prod_beta split: option.splits)
  with run_try_write_calls [OF s, of env w]
  have l: "\<exists>rest. write_calls (snd (run_pipeline env p w)) =
          write_calls w @
            WritePandas (fst (create_company_dimension env p (start_banner w))) ''STG_COMPANIES'' True False
              # rest"
    by simp
  from ne nn z v l show ?thesis by simp
qed

theorem company_dimension_always_loaded_witness:
  "init env_exhausted world0 = (Inr constructed, logger INFO Connected world0)
   \<and> \<not> df_empty (fst (create_company_dimension env_exhausted constructed world0))
   \<and> fst (validate_data (fst (create_company_dimension env_exhausted constructed world0))
        ''stg_companies'' world0) = True
   \<and> (\<exists>rest. write_calls (snd (run_pipeline env_exhausted constructed (logger INFO Connected world0))) =
          WritePandas
            (fst (create_company_dimension env_exhausted constructed
               (start_banner (logger INFO Connected world0))))
            ''STG_COMPANIES'' True False # rest)"
proof -
  have i: "init env_exhausted world0 = (Inr constructed, logger INFO Connected world0)"
    by (simp add: init_def connect_snowflake_def env_exhausted_def constructed_def)
  from company_dimension_always_loaded [OF i, of world0 world0] i show ?thesis
    by (simp add: world0_def)
qed

text \<open>
  C1, as the code has it. Take a run of a constructed pipeline whose quote fetch yields
  an empty frame. The mock frame has exactly 4 rows.
  \<^item> When the company load does not raise, the runner calls \<open>write_pandas\<close> twice: for
    \<open>STG_COMPANIES\<close> with the company frame, then for \<open>STG_STOCK_PRICES\<close> with the
    mock frame. When that second write does not raise either, the run returns normally
    and \<open>STG_STOCK_PRICES\<close> holds its former rows followed by the 4 mock rows; when it
    raises, the exception is raised again and \<open>STG_STOCK_PRICES\<close> is as it was.
  \<^item> When the company load raises, the exception is raised again, the only write of the
    run is the one for \<open>STG_COMPANIES\<close>, and no table changes: no mock row is loaded.
\<close>

theorem empty_fetch_loads_mock:
  assumes "init env w0 = (Inr p, w)"
    and "extract_frames env p (start_banner w) = (companies_df, Inr stock_prices_df, w2)"
    and "df_empty stock_prices_df"
  shows "length (rows (mock_prices (utcnow env (clock w2)))) = 4
    \<and> (\<not> write_raises env (length (write_calls w)) \<longrightarrow>
          write_calls (snd (run_pipeline env p w)) =
            write_calls w @
              [WritePandas companies_df ''STG_COMPANIES'' True False,
               WritePandas (mock_prices (utcnow env (clock w2))) ''STG_STOCK_PRICES'' True False]
          \<and> (\<not> write_raises env (Suc (length (write_calls w))) \<longrightarrow>
                fst (run_pipeline env p w) = Inr ()
                \<and> tables (snd (run_pipeline env p w)) ''STG_STOCK_PRICES'' =
                    Some ((case tables w ''STG_STOCK_PRICES'' of None \<Rightarrow> [] | Some old \<Rightarrow> old)
                           @ rows (mock_prices (utcnow env (clock w2)))))
          \<and> (write_raises env (Suc (length (write_calls w))) \<longrightarrow>
                fst (run_pipeline env p w) = Inl WriteError
                \<and> tables (snd (run_pipeline env p w)) ''STG_STOCK_PRICES'' =
                    tables w ''STG_STOCK_PRICES''))
    \<and> (write_raises env (length (write_calls w)) \<longrightarrow>
          fst (run_pipeline env p w) = Inl WriteError
          \<and> write_calls (snd (run_pipeline env p w)) =
              write_calls w @ [WritePandas companies_df ''STG_COMPANIES'' True False]
          \<and> tables (snd (run_pipeline env p w)) = tables w)"
proof -
  from init_Inr [OF assms(1)] have c: "sf_conn p = Some ()" and s: "companies p = static_companies"
    by simp_all
  let ?w3 = "snd (load_companies env p companies_df w2)"
  let ?m = "mock_prices (utcnow env (clock w2))"
  let ?n = "length (write_calls w)"
  from extract_frames_fields(1) [of env p "start_banner w"] assms(2) s
  have ne: "\<not> df_empty companies_df"
    using company_dimension_not_empty [of p env "start_banner w"] by simp
  from extract_frames_fields(3) [of env p "start_banner w"] assms(2)
  have wc: "write_calls w2 = write_calls w" by simp
  from extract_frames_fields(5) [of env p "start_banner w"] assms(2)
  have tb: "tables w2 = tables w" by simp
  have l1: "fst (load_companies env p companies_df w2) =
              (if write_raises env ?n then Some WriteError else None)"
    using load_companies_fst [OF c ne, of env w2] wc by simp
  have sc: "sf_calls (snd (run_pipeline env p w)) =
     sf_calls w @
       (WritePandas companies_df ''STG_COMPANIES'' True False #
        (if write_raises env ?n then []
         else [WritePandas ?m ''STG_STOCK_PRICES'' True False])) @ [Close]"
    using run_try_sf_calls [OF c s assms(2)] assms(3)
    by (simp add: run_pipeline_def case_prod_beta c sf_close_def run_except_sf_calls)
  have wcs: "write_calls (snd (run_pipeline env p w)) =
     write_calls w @
       WritePandas companies_df ''STG_COMPANIES'' True False #
        (if write_raises env ?n then []
         else [WritePandas ?m ''STG_STOCK_PRICES'' True False])"
    using sc by (simp add: write_calls_def)
  have res: "fst (run_pipeline env p w) =
        (if write_raises env ?n \<or> write_raises env (Suc ?n) then Inl WriteError else Inr ())"
    using run_try_fst [OF c s, of env w]
    by (simp add: run_pipeline_def run_except_def case_prod_beta split: option.splits if_splits)
  have tp: "tables (snd (run_pipeline env p w)) = tables (snd (run_try env p w))"
    by (simp add: run_pipeline_def run_except_def sf_close_def case_prod_beta split: option.splits)
  have a: "length (rows ?m) = 4"
    by (simp add: mock_prices_def)
  have f: "tables (snd (run_pipeline env p w)) = tables w" if r: "write_raises env ?n"
  proof -
    from l1 r have x: "fst (load_companies env p companies_df w2) \<noteq> None" by simp
    from load_companies_tables_raises [OF x] tb have "tables ?w3 = tables w" by simp
    with x show ?thesis
      by (auto simp: tp run_try_def assms(2) case_prod_beta split: option.splits)
  qed
  have ck3: "clock ?w3 = clock w2"
    by (rule load_companies_clock)
  have wc3: "write_calls ?w3 = write_calls w @ [WritePandas companies_df ''STG_COMPANIES'' True False]"
    using load_companies_frame(1) [OF ne, of env p w2] wc by simp
  have l2: "fst (load_mock env p ?w3) =
              (if write_raises env (Suc ?n) then Some WriteError else None)"
    using load_mock_fst [OF c, of env ?w3] wc3 by simp
  have rt: "tables (snd (run_try env p w)) = tables (snd (load_mock env p ?w3))"
    if "\<not> write_raises env ?n"
    using that l1 assms(3)
    by (simp add: run_try_def assms(2) load_stock_prices_def case_prod_beta split: option.splits)
  have g: "tables (snd (run_pipeline env p w)) ''STG_STOCK_PRICES'' =
              Some ((case tables w ''STG_STOCK_PRICES'' of None \<Rightarrow> [] | Some old \<Rightarrow> old) @ rows ?m)"
    if n1: "\<not> write_raises env ?n" and n2: "\<not> write_raises env (Suc ?n)"
  proof -
    from l1 n1 have ok1: "fst (load_companies env p companies_df w2) = None" by simp
    from l2 n2 have ok2: "fst (load_mock env p ?w3) = None" by simp
    from load_companies_tables [OF ok1 ne] tb
    have "tables ?w3 ''STG_STOCK_PRICES'' = tables w ''STG_STOCK_PRICES''" by simp
    with load_mock_tables [OF ok2] ck3 show ?thesis
      by (simp add: tp rt [OF n1])
  qed
  have h: "tables (snd (run_pipeline env p w)) ''STG_STOCK_PRICES'' = tables w ''STG_STOCK_PRICES''"
    if n1: "\<not> write_raises env ?n" and r2: "write_raises env (Suc ?n)"
  proof -
    from l1 n1 have ok1: "fst (load_companies env p companies_df w2) = None" by simp
    from l2 r2 have x: "fst (load_mock env p ?w3) \<noteq> None" by simp
    from load_companies_tables [OF ok1 ne] tb
    have "tables ?w3 ''STG_STOCK_PRICES'' = tables w ''STG_STOCK_PRICES''" by simp
    with load_mock_tables_raises [OF x] show ?thesis
      by (simp add: tp rt [OF n1])
  qed
  from a wcs res f g h show ?thesis
    by simp
qed

theorem empty_fetch_loads_mock_witness:
  "init env_exhausted world0 = (Inr constructed, logger INFO Connected world0)
   \<and> init env_write_fails world0 = (Inr constructed, logger INFO Connected world0)
   \<and> init env_second_write_fails world0 = (Inr constructed, logger INFO Connected world0)
   \<and> fst (snd (extract_frames env_exhausted constructed (start_banner (logger INFO Connected world0))))
       = Inr DataFrame_empty
   \<and> fst (snd (extract_frames env_write_fails constructed (start_banner (logger INFO Connected world0))))
       = Inr DataFrame_empty
   \<and> fst (snd (extract_frames env_second_write_fails constructed
                  (start_banner (logger INFO Connected world0))))
       = Inr DataFrame_empty
   \<and> df_empty DataFrame_empty
   \<and> length (write_calls (snd (run_pipeline env_exhausted constructed (logger INFO Connected world0)))) = 2
   \<and> fst (run_pipeline env_exhausted constructed (logger INFO Connected world0)) = Inr ()
   \<and> map_option length
        (tables (snd (run_pipeline env_exhausted constructed (logger INFO Connected world0)))
           ''STG_STOCK_PRICES'') = Some 4
   \<and> fst (run_pipeline env_write_fails constructed (logger INFO Connected world0)) = Inl WriteError
   \<and> length (write_calls (snd (run_pipeline env_write_fails constructed (logger INFO Connected world0)))) = 1
   \<and> tables (snd (run_pipeline env_write_fails constructed (logger INFO Connected world0))) = Map.empty
   \<and> fst (run_pipeline env_second_write_fails constructed (logger INFO Connected world0)) = Inl WriteError
   \<and> tables (snd (run_pipeline env_second_write_fails constructed (logger INFO Connected world0)))
        ''STG_STOCK_PRICES'' = None"
proof -
  let ?w = "logger INFO Connected world0"
  have i: "init env_exhausted world0 = (Inr constructed, ?w)"
    "init env_write_fails world0 = (Inr constructed, ?w)"
    "init env_second_write_fails world0 = (Inr constructed, ?w)"
    by (simp_all add: init_constructed env_exhausted_def env_write_fails_def
        env_second_write_fails_def)
  have a: "\<forall>n t. \<exists>s b. http_get env_exhausted n t = Response s b \<and> s \<noteq> 200"
    "\<forall>n t. \<exists>s b. http_get env_write_fails n t = Response s b \<and> s \<noteq> 200"
    "\<forall>n t. \<exists>s b. http_get env_second_write_fails n t = Response s b \<and> s \<noteq> 200"
    by (simp_all add: env_exhausted_def env_write_fails_def env_second_write_fails_def)
  note x = extract_frames_all_not_200 [OF a(1), of constructed "start_banner ?w"]
    extract_frames_all_not_200 [OF a(2), of constructed "start_banner ?w"]
    extract_frames_all_not_200 [OF a(3), of constructed "start_banner ?w"]
  have f: "fst (snd (extract_frames env_exhausted constructed (start_banner ?w))) = Inr DataFrame_empty"
    "fst (snd (extract_frames env_write_fails constructed (start_banner ?w))) = Inr DataFrame_empty"
    "fst (snd (extract_frames env_second_write_fails constructed (start_banner ?w))) = Inr DataFrame_empty"
    using x by (metis fst_conv snd_conv)+
  have e: "df_empty DataFrame_empty"
    by (simp add: df_empty_def DataFrame_empty_def)
  have z: "write_calls ?w = []" "tables ?w = Map.empty"
    by (simp_all add: world0_def)
  have r: "\<not> write_raises env_exhausted 0" "\<not> write_raises env_exhausted (Suc 0)"
    "write_raises env_write_fails 0"
    "\<not> write_raises env_second_write_fails 0" "write_raises env_second_write_fails (Suc 0)"
    by (simp_all add: env_exhausted_def env_write_fails_def env_second_write_fails_def)
  from empty_fetch_loads_mock [OF i(1) x(1) e] z r
  have c1: "length (write_calls (snd (run_pipeline env_exhausted constructed ?w))) = 2"
    "fst (run_pipeline env_exhausted constructed ?w) = Inr ()"
    "map_option length (tables (snd (run_pipeline env_exhausted constructed ?w)) ''STG_STOCK_PRICES'')
       = Some 4"
    by simp_all
  from empty_fetch_loads_mock [OF i(2) x(2) e] z r
  have c2: "fst (run_pipeline env_write_fails constructed ?w) = Inl WriteError"
    "length (write_calls (snd (run_pipeline env_write_fails constructed ?w))) = 1"
    "tables (snd (run_pipeline env_write_fails constructed ?w)) = Map.empty"
    by simp_all
  from empty_fetch_loads_mock [OF i(3) x(3) e] z r
  have c3: "fst (run_pipeline env_second_write_fails constructed ?w) = Inl WriteError"
    "tables (snd (run_pipeline env_second_write_fails constructed ?w)) ''STG_STOCK_PRICES'' = None"
    by simp_all
  from i f e c1 c2 c3 show ?thesis
    by (simp only: simp_thms)
qed

text \<open>
  C1, as stated, fails when the company load raises: the API is exhausted, so the quote
  fetch yields the empty frame, but the first write raises, the exception leaves the
  \<open>try\<close> block before the quotes are looked at, and the only write of the run is the
  one for \<open>STG_COMPANIES\<close>. No mock row is loaded and \<open>STG_STOCK_PRICES\<close> does not
  exist afterwards.
\<close>

theorem failed_company_load_skips_mock:
  "init env_write_fails world0 = (Inr constructed, logger INFO Connected world0)
   \<and> fst (snd (extract_frames env_write_fails constructed (start_banner (logger INFO Connected world0))))
       = Inr DataFrame_empty
   \<and> fst (main env_write_fails world0) = Inl WriteError
   \<and> map (\<lambda>c. case c of WritePandas df t a ov \<Rightarrow> (t, length (rows df)))
        (write_calls (snd (main env_write_fails world0))) = [(''STG_COMPANIES'', 5)]
   \<and> tables (snd (main env_write_fails world0)) ''STG_STOCK_PRICES'' = None"
proof -
  let ?w = "logger INFO Connected world0"
  have i: "init env_write_fails world0 = (Inr constructed, ?w)"
    by (simp add: init_constructed env_write_fails_def)
  have f: "fst (snd (extract_frames env_write_fails constructed (start_banner ?w))) = Inr DataFrame_empty"
    by (simp add: extract_frames_def case_prod_beta fetch_exhausted)
  have m: "main env_write_fails world0 = run_pipeline env_write_fails constructed ?w"
    by (simp add: main_def i)
  have r: "run_pipeline env_write_fails constructed ?w =
      (Inl WriteError,
       \<lparr>clock = 2, requests = [''AAPL'', ''JPM''],
        logged =
          [(INFO, Connected), (INFO, Banner), (INFO, StartingPipeline), (INFO, Banner),
           (INFO, CreatingCompanyDimension), (INFO, FetchingStockPrices),
           (WARNING, FailedToFetch ''AAPL'' 503), (WARNING, FailedToFetch ''JPM'' 503),
           (INFO, Validating ''stg_companies''), (INFO, ValidationPassed ''stg_companies'' 5),
           (INFO, Loading 5 ''stg_companies''), (ERROR, FailedToLoad ''stg_companies'' WriteError),
           (ERROR, PipelineFailed WriteError)],
        tables = Map.empty,
        sf_calls =
          [WritePandas (fst (create_company_dimension env_write_fails constructed world0))
             ''STG_COMPANIES'' True False,
           Close]\<rparr>)"
    by (simp add: run_pipeline_def run_except_def run_try_def extract_frames_def start_banner_def
        create_company_dimension_def fetch_stock_prices_def fetch_try_def fetch_company_def
        load_companies_def validate_data_def load_to_snowflake_def write_pandas_def
        df_empty_def isnull_sum_def cell_at_def sf_close_def
        logger_def datetime_utcnow_def constructed_def static_companies_def env_write_fails_def
        world0_def upper_stg_companies Let_def)
  have l: "length (rows (fst (create_company_dimension env_write_fails constructed world0))) = 5"
    by (simp add: create_company_dimension_def case_prod_beta constructed_def static_companies_def)
  from i f m r l show ?thesis
    by simp
qed

text \<open>
  C5, as the code has it. For a catalog entry processed by the quote fetch:
  \<^item> a response whose status is not 200, and a 200 response whose dictionary lacks the
    time series, are handled in the loop body: a warning is logged, \<open>data\<close> is left as
    it was (the entry contributes no record), no exception is raised and the loop goes
    on with the remaining entries;
  \<^item> an exception is not handled for the entry: it ends the loop, so the remaining
    entries are not queried. When it comes from a daily entry of a time series (a
    value is missing or does not convert), that entry is the \<open>k\<close>-th of the first 30,
    the \<open>k\<close> entries before it all converted, and their records, stamped as usual,
    stay appended to \<open>data\<close>. When it comes from anywhere else (the request, decoding
    the body, a payload of the wrong shape), \<open>data\<close> is as it was before the entry.
    The one \<open>except\<close> clause of \<open>fetch_stock_prices\<close> logs the exception as an error
    and returns the frame of what \<open>data\<close> holds.
\<close>

theorem fetch_failure_handling:
  "(http_get env (length (requests w)) (ticker c) = Response s b \<and> s \<noteq> 200 \<longrightarrow>
      fetch_company env c data w =
        (None, data,
         logger WARNING (FailedToFetch (ticker c) s) (w\<lparr>requests := requests w @ [ticker c]\<rparr>)))
   \<and> (http_get env (length (requests w)) (ticker c) = Response 200 (Some (JsonObject None note)) \<longrightarrow>
      fetch_company env c data w =
        (None, data,
         logger WARNING
           (NoDataFor (ticker c) (case note of None \<Rightarrow> ''Unknown error'' | Some n \<Rightarrow> n))
           (w\<lparr>requests := requests w @ [ticker c]\<rparr>)))
   \<and> (fst (fetch_company env c data w) = None \<longrightarrow>
      fetch_loop env (c # cs) data w =
        fetch_loop env cs (fst (snd (fetch_company env c data w)))
          (snd (snd (fetch_company env c data w))))
   \<and> (fst (fetch_company env c data w) = Some e \<longrightarrow>
      fetch_loop env (c # cs) data w = fetch_company env c data w
      \<and> requests (snd (snd (fetch_loop env (c # cs) data w))) = requests w @ [ticker c])
   \<and> (fst (fetch_company env c data w) = Some e
       \<and> http_get env (length (requests w)) (ticker c) =
            Response 200 (Some (JsonObject (Some (TsEntries es)) note)) \<longrightarrow>
      (\<exists>k. k < min 30 (length es) \<and> all_convert (take k es)
          \<and> parse_prices (snd (es ! k)) = Inl e
          \<and> fst (snd (fetch_company env c data w)) =
              data @ quotes_of_entries env (ticker c) (clock w) (take k es)))
   \<and> (fst (fetch_company env c data w) = Some e
       \<and> (\<forall>es note. http_get env (length (requests w)) (ticker c) \<noteq>
              Response 200 (Some (JsonObject (Some (TsEntries es)) note))) \<longrightarrow>
      fst (snd (fetch_company env c data w)) = data)
   \<and> (fst (fetch_try env p w) = Some e \<longrightarrow>
      fetch_stock_prices env p w =
        (Inr (if fst (snd (fetch_try env p w)) \<noteq> []
              then DataFrame_quotes (fst (snd (fetch_try env p w))) else DataFrame_empty),
         logger ERROR (ErrorFetching e) (snd (snd (fetch_try env p w)))))"
proof -
  obtain r d1 w1 where f: "fetch_company env c data w = (r, d1, w1)"
    by (cases "fetch_company env c data w") auto
  have p1: "fetch_company env c data w =
        (None, data,
         logger WARNING (FailedToFetch (ticker c) s) (w\<lparr>requests := requests w @ [ticker c]\<rparr>))"
    if "http_get env (length (requests w)) (ticker c) = Response s b \<and> s \<noteq> 200"
    using that by (simp add: fetch_company_not_200)
  have p2: "fetch_company env c data w =
        (None, data,
         logger WARNING
           (NoDataFor (ticker c) (case note of None \<Rightarrow> ''Unknown error'' | Some n \<Rightarrow> n))
           (w\<lparr>requests := requests w @ [ticker c]\<rparr>))"
    if "http_get env (length (requests w)) (ticker c) = Response 200 (Some (JsonObject None note))"
    using that by (simp add: fetch_company_def Let_def)
  have p3: "fetch_loop env (c # cs) data w =
        fetch_loop env cs (fst (snd (fetch_company env c data w)))
          (snd (snd (fetch_company env c data w)))"
    if "fst (fetch_company env c data w) = None"
    using that f by simp
  have p4: "fetch_loop env (c # cs) data w = fetch_company env c data w
      \<and> requests (snd (snd (fetch_loop env (c # cs) data w))) = requests w @ [ticker c]"
    if "fst (fetch_company env c data w) = Some e"
    using that f fetch_company_frame [OF f]
    by simp
  have p5: "\<exists>k. k < min 30 (length es) \<and> all_convert (take k es)
          \<and> parse_prices (snd (es ! k)) = Inl e
          \<and> fst (snd (fetch_company env c data w)) =
              data @ quotes_of_entries env (ticker c) (clock w) (take k es)"
    if "fst (fetch_company env c data w) = Some e
       \<and> http_get env (length (requests w)) (ticker c) =
            Response 200 (Some (JsonObject (Some (TsEntries es)) note))"
    using that fetch_company_raises_in_entries [of env w c es "note" data e] by blast
  have p6: "fst (snd (fetch_company env c data w)) = data"
    if "fst (fetch_company env c data w) = Some e
       \<and> (\<forall>es note. http_get env (length (requests w)) (ticker c) \<noteq>
              Response 200 (Some (JsonObject (Some (TsEntries es)) note)))"
    using that fetch_company_raises_elsewhere [of env c data w e] by blast
  have p7: "fetch_stock_prices env p w =
        (Inr (if fst (snd (fetch_try env p w)) \<noteq> []
              then DataFrame_quotes (fst (snd (fetch_try env p w))) else DataFrame_empty),
         logger ERROR (ErrorFetching e) (snd (snd (fetch_try env p w))))"
    if "fst (fetch_try env p w) = Some e"
    using that by (simp add: fetch_stock_prices_def case_prod_beta)
  from p1 p2 p3 p4 p5 p6 p7 show ?thesis by blast
qed

theorem fetch_failure_handling_witness:
  "http_get env_exhausted (length (requests world0)) (ticker aapl) = Response 503 None
   \<and> (503 :: nat) \<noteq> 200
   \<and> fst (snd (fetch_company env_exhausted aapl [] world0)) = []
   \<and> http_get env_rate_limited (length (requests world0)) (ticker aapl) =
       Response 200 (Some (JsonObject None (Some ''rate limit'')))
   \<and> fst (snd (fetch_company env_rate_limited aapl [] world0)) = []
   \<and> fst (fetch_company env_exhausted aapl [] world0) = None
   \<and> fetch_loop env_exhausted [aapl] [] world0 =
       (None, fst (snd (fetch_company env_exhausted aapl [] world0)),
        snd (snd (fetch_company env_exhausted aapl [] world0)))
   \<and> fst (fetch_company env_partial aapl [] world0) = Some (KeyError ''6. volume'')
   \<and> http_get env_partial (length (requests world0)) (ticker aapl) =
       Response 200
         (Some (JsonObject
            (Some (TsEntries [(''2025-01-10'', good_prices), (''2025-01-09'', no_volume)])) None))
   \<and> fetch_loop env_partial (aapl # tl static_companies) [] world0 =
       fetch_company env_partial aapl [] world0
   \<and> requests (snd (snd (fetch_loop env_partial (aapl # tl static_companies) [] world0))) = [''AAPL'']
   \<and> fst (snd (fetch_company env_partial aapl [] world0)) =
       quotes_of_entries env_partial ''AAPL'' 0 [(''2025-01-10'', good_prices)]
   \<and> fst (fetch_company env_unreachable aapl [] world0) = Some RequestException
   \<and> (\<forall>es note. http_get env_unreachable (length (requests world0)) (ticker aapl) \<noteq>
          Response 200 (Some (JsonObject (Some (TsEntries es)) note)))
   \<and> fst (snd (fetch_company env_unreachable aapl [] world0)) = []
   \<and> fst (fetch_try env_partial constructed world0) = Some (KeyError ''6. volume'')
   \<and> logged (snd (fetch_stock_prices env_partial constructed world0)) =
       logged (snd (snd (fetch_try env_partial constructed world0)))
         @ [(ERROR, ErrorFetching (KeyError ''6. volume''))]"
proof -
  let ?es = "[(''2025-01-10'', good_prices), (''2025-01-09'', no_volume)]"
  have h1: "http_get env_exhausted (length (requests world0)) (ticker aapl) = Response 503 None
      \<and> (503 :: nat) \<noteq> 200"
    by (simp add: env_exhausted_def)
  have h2: "http_get env_rate_limited (length (requests world0)) (ticker aapl) =
       Response 200 (Some (JsonObject None (Some ''rate limit'')))"
    by (simp add: env_rate_limited_def)
  have h3: "fst (fetch_company env_exhausted aapl [] world0) = None"
    using h1 by (simp add: fetch_company_not_200)
  have h4: "fst (fetch_company env_partial aapl [] world0) = Some (KeyError ''6. volume'')"
    by (simp add: env_partial_def aapl_def world0_def fetch_company_def good_prices_def
        no_volume_def datetime_utcnow_def Let_def)
  have h5: "fst (fetch_try env_partial constructed world0) = Some (KeyError ''6. volume'')"
    by (simp add: fetch_try_def env_partial_def constructed_def world0_def static_companies_def
        fetch_company_def good_prices_def no_volume_def logger_def datetime_utcnow_def Let_def)
  have h6: "http_get env_partial (length (requests world0)) (ticker aapl) =
       Response 200 (Some (JsonObject (Some (TsEntries ?es)) None))"
    by (simp add: env_partial_def aapl_def)
  have h7: "fst (fetch_company env_unreachable aapl [] world0) = Some RequestException"
    by (simp add: env_unreachable_def fetch_company_def Let_def)
  have h8: "\<forall>es note. http_get env_unreachable (length (requests world0)) (ticker aapl) \<noteq>
          Response 200 (Some (JsonObject (Some (TsEntries es)) note))"
    by (simp add: env_unreachable_def)
  note a = fetch_failure_handling [of env_exhausted world0 aapl 503 None "[]" "Some ''rate limit''"
      "[]" "KeyError ''6. volume''" ?es constructed]
  note b = fetch_failure_handling [of env_rate_limited world0 aapl 503 None "[]" "Some ''rate limit''"
      "[]" "KeyError ''6. volume''" ?es constructed]
  note c = fetch_failure_handling [of env_partial world0 aapl 503 None "[]" None
      "tl static_companies" "KeyError ''6. volume''" ?es constructed]
  note d = fetch_failure_handling [of env_unreachable world0 aapl 503 None "[]" None
      "[]" RequestException ?es constructed]
  from a h1 have c1: "fst (snd (fetch_company env_exhausted aapl [] world0)) = []"
    by simp
  from b h2 have c2: "fst (snd (fetch_company env_rate_limited aapl [] world0)) = []"
    by simp
  from a h3 have c3: "fetch_loop env_exhausted [aapl] [] world0 =
       (None, fst (snd (fetch_company env_exhausted aapl [] world0)),
        snd (snd (fetch_company env_exhausted aapl [] world0)))"
    by simp
  from c h4 have c4: "fetch_loop env_partial (aapl # tl static_companies) [] world0 =
       fetch_company env_partial aapl [] world0"
    and c5: "requests (snd (snd (fetch_loop env_partial (aapl # tl static_companies) [] world0))) =
       requests world0 @ [ticker aapl]"
    by blast+
  from c h4 h6 obtain k where k: "k < min 30 (length ?es)"
    "parse_prices (snd (?es ! k)) = Inl (KeyError ''6. volume'')"
    "fst (snd (fetch_company env_partial aapl [] world0)) =
       [] @ quotes_of_entries env_partial (ticker aapl) (clock world0) (take k ?es)"
    by blast
  from k(1) have "k = 0 \<or> k = 1" by auto
  with k(2) have k1: "k = 1" by (auto simp: good_prices_def)
  from k(3) k1 have c8: "fst (snd (fetch_company env_partial aapl [] world0)) =
       quotes_of_entries env_partial ''AAPL'' 0 [(''2025-01-10'', good_prices)]"
    by (simp add: aapl_def world0_def)
  from d h7 h8 have c9: "fst (snd (fetch_company env_unreachable aapl [] world0)) = []"
    by blast
  from c h5 have "fetch_stock_prices env_partial constructed world0 =
        (Inr (if fst (snd (fetch_try env_partial constructed world0)) \<noteq> []
              then DataFrame_quotes (fst (snd (fetch_try env_partial constructed world0)))
              else DataFrame_empty),
         logger ERROR (ErrorFetching (KeyError ''6. volume''))
           (snd (snd (fetch_try env_partial constructed world0))))"
    by blast
  then have c6: "logged (snd (fetch_stock_prices env_partial constructed world0)) =
       logged (snd (snd (fetch_try env_partial constructed world0)))
         @ [(ERROR, ErrorFetching (KeyError ''6. volume''))]"
    by simp
  have c7: "requests world0 @ [ticker aapl] = [''AAPL'']"
    by (simp add: world0_def aapl_def)
  from h1 h2 h3 h4 h5 h6 h7 h8 c1 c2 c3 c4 c5 c6 c7 c8 c9 show ?thesis
    by (simp only: simp_thms)
qed

text \<open>
  C5, as stated, fails on an exception. The second day of AAPL has no volume, and the
  payload for JPM is one complete day. The \<open>KeyError\<close> ends the whole loop: AAPL, the
  entry that failed, has contributed the record of its first day; JPM is never queried
  and contributes nothing; the log has an error line, not a warning.
\<close>

theorem exception_ends_the_fetch:
  "http_get env_partial 1 ''JPM'' =
     Response 200 (Some (JsonObject (Some (TsEntries [(''2025-01-10'', good_prices)])) None))
   \<and> fst (fetch_try env_partial constructed world0) = Some (KeyError ''6. volume'')
   \<and> map (\<lambda>q. (q_ticker q, q_date q)) (fst (snd (fetch_try env_partial constructed world0)))
       = [(''AAPL'', ''2025-01-10'')]
   \<and> requests (snd (snd (fetch_try env_partial constructed world0))) = [''AAPL'']
   \<and> fst (fetch_stock_prices env_partial constructed world0)
       = Inr (DataFrame_quotes (fst (snd (fetch_try env_partial constructed world0))))
   \<and> logged (snd (fetch_stock_prices env_partial constructed world0))
       = [(INFO, FetchingStockPrices), (ERROR, ErrorFetching (KeyError ''6. volume''))]"
proof -
  have t: "fetch_try env_partial constructed world0 =
      (Some (KeyError ''6. volume''),
       [make_quote ''AAPL'' ''2025-01-10'' (Finite 150, Finite 151, Finite 152, Finite 149.5, 50000000) 100],
       \<lparr>clock = 1, requests = [''AAPL''], logged = [(INFO, FetchingStockPrices)],
        tables = Map.empty, sf_calls = []\<rparr>)"
    by (simp add: fetch_try_def env_partial_def constructed_def world0_def static_companies_def
        fetch_company_def good_prices_def no_volume_def logger_def datetime_utcnow_def Let_def)
  have h: "http_get env_partial 1 ''JPM'' =
     Response 200 (Some (JsonObject (Some (TsEntries [(''2025-01-10'', good_prices)])) None))"
    by (simp add: env_partial_def)
  from t h show ?thesis
    by (simp add: fetch_stock_prices_def make_quote_def logger_def)
qed

text \<open>
  C7, as the code has it. For a 200 response whose dictionary has the time series
  \<open>es\<close>, the records appended for the ticker are those of the first \<open>k\<close> entries of
  \<open>es\<close>, in the order of the payload, for some \<open>k\<close> that is at most 30 and at most the
  length of \<open>es\<close>; when the first 30 entries all convert, no exception is raised and
  they are the records of exactly the first 30 entries (all of them when there are
  fewer). Each record carries the date of its entry and is stamped with the reading
  of the clock taken when it is built. The first 30 entries are the 30 most recent
  ones when the payload lists its dates newest first.
\<close>

theorem fetch_company_maps_first_30:
  assumes "http_get env (length (requests w)) (ticker c) =
             Response 200 (Some (JsonObject (Some (TsEntries es)) note))"
  shows "(\<exists>k. k \<le> min 30 (length es) \<and> all_convert (take k es)
            \<and> fst (snd (fetch_company env c data w)) =
                data @ quotes_of_entries env (ticker c) (clock w) (take k es))
     \<and> (all_convert (take 30 es) \<longrightarrow>
            fst (fetch_company env c data w) = None
            \<and> fst (snd (fetch_company env c data w)) =
                data @ quotes_of_entries env (ticker c) (clock w) (take 30 es))
     \<and> map q_date (quotes_of_entries env (ticker c) (clock w) (take 30 es)) = map fst (take 30 es)
     \<and> map ingested_at (quotes_of_entries env (ticker c) (clock w) (take 30 es)) =
          map (utcnow env) [clock w..<clock w + min 30 (length es)]
     \<and> (sorted (rev (map fst es)) \<and> distinct (map fst es) \<longrightarrow> take 30 es = most_recent 30 es)"
proof -
  let ?w1 = "w\<lparr>requests := requests w @ [ticker c]\<rparr>"
  let ?a = "append_entries env (ticker c) (take 30 es) data ?w1"
  obtain r data' w' where a: "?a = (r, data', w')"
    by (cases ?a) auto
  from append_entries_result [OF a] obtain k where k: "k \<le> length (take 30 es)"
    "all_convert (take k (take 30 es))"
    "data' = data @ quotes_of_entries env (ticker c) (clock ?w1) (take k (take 30 es))"
    by blast
  from k(1) have k30: "k \<le> min 30 (length es)" by simp
  then have "k \<le> 30" by simp
  then have tk: "take k (take 30 es) = take k es" by (simp add: min_absorb1)
  from k tk a fetch_company_entries(2) [OF assms, of data]
  have "k \<le> min 30 (length es) \<and> all_convert (take k es)
            \<and> fst (snd (fetch_company env c data w)) =
                data @ quotes_of_entries env (ticker c) (clock w) (take k es)"
    using k30 by simp
  then have p1: "\<exists>k. k \<le> min 30 (length es) \<and> all_convert (take k es)
            \<and> fst (snd (fetch_company env c data w)) =
                data @ quotes_of_entries env (ticker c) (clock w) (take k es)"
    by blast
  have p2: "fst (fetch_company env c data w) = None
            \<and> fst (snd (fetch_company env c data w)) =
                data @ quotes_of_entries env (ticker c) (clock w) (take 30 es)"
    if "all_convert (take 30 es)"
    using append_entries_all_convert [OF that, of env "ticker c" data ?w1]
      fetch_company_entries [OF assms, of data]
    by simp
  have p3: "map q_date (quotes_of_entries env (ticker c) (clock w) (take 30 es)) = map fst (take 30 es)"
    by (rule quotes_of_entries_q_date)
  have p4: "map ingested_at (quotes_of_entries env (ticker c) (clock w) (take 30 es)) =
          map (utcnow env) [clock w..<clock w + min 30 (length es)]"
    using quotes_of_entries_ingested_at [of env "ticker c" "clock w" "take 30 es"]
    by (simp add: min.commute)
  have p5: "take 30 es = most_recent 30 es"
    if "sorted (rev (map fst es)) \<and> distinct (map fst es)"
    using that by (simp add: most_recent_newest_first)
  from p1 p2 p3 p4 p5 show ?thesis by blast
qed

theorem fetch_company_maps_first_30_witness:
  "http_get env_live (length (requests world0)) (ticker aapl) =
     Response 200 (Some (JsonObject (Some (TsEntries two_days)) None))
   \<and> all_convert (take 30 two_days)
   \<and> sorted (rev (map fst two_days)) \<and> distinct (map fst two_days)
   \<and> fst (fetch_company env_live aapl [] world0) = None
   \<and> map q_date (fst (snd (fetch_company env_live aapl [] world0))) = [''2025-01-10'', ''2025-01-09'']
   \<and> map ingested_at (fst (snd (fetch_company env_live aapl [] world0))) = [100, 101]
   \<and> most_recent 30 two_days = two_days"
proof -
  have h: "http_get env_live (length (requests world0)) (ticker aapl) =
     Response 200 (Some (JsonObject (Some (TsEntries two_days)) None))"
    by (simp add: env_live_def)
  have c: "all_convert (take 30 two_days)"
    by (simp add: two_days_def good_prices_def)
  have s: "sorted (rev (map fst two_days)) \<and> distinct (map fst two_days)"
    by (simp add: two_days_def)
  have l: "take 30 two_days = two_days" "length two_days = 2"
    by (simp_all add: two_days_def)
  have u: "utcnow env_live 0 = 100" "utcnow env_live (Suc 0) = 101"
    by (simp_all add: env_live_def)
  have d: "map fst two_days = [''2025-01-10'', ''2025-01-09'']"
    by (simp add: two_days_def)
  from fetch_company_maps_first_30 [OF h, of "[]"] h c s l u d show ?thesis
    by (simp add: world0_def)
qed

text \<open>
  C7, as stated, fails on a payload that lists its dates oldest first: of the 31 days of
  January the fetch maps the first 30, the 1st to the 30th, and leaves out the 31st,
  the most recent one.
\<close>

theorem oldest_first_payload_drops_newest:
  "http_get env_oldest_first (length (requests world0)) (ticker aapl) =
     Response 200 (Some (JsonObject (Some (TsEntries january)) None))
   \<and> length january = 31
   \<and> fst (fetch_company env_oldest_first aapl [] world0) = None
   \<and> map q_date (fst (snd (fetch_company env_oldest_first aapl [] world0))) = take 30 (map fst january)
   \<and> map fst (most_recent 30 january) = take 30 (rev (map fst january))
   \<and> ''2025-01-31'' \<in> set (map fst (most_recent 30 january))
   \<and> ''2025-01-31'' \<notin> set (map q_date (fst (snd (fetch_company env_oldest_first aapl [] world0))))"
proof -
  have h: "http_get env_oldest_first (length (requests world0)) (ticker aapl) =
     Response 200 (Some (JsonObject (Some (TsEntries january)) None))"
    by (simp add: env_oldest_first_def)
  have n: "length january = 31"
    by (simp add: january_def)
  from january_all_convert have c: "all_convert (take 30 january)"
    by (simp add: all_convert_def list_all_iff) (meson in_set_takeD)
  let ?w1 = "world0\<lparr>requests := requests world0 @ [ticker aapl]\<rparr>"
  from append_entries_all_convert [OF c, of env_oldest_first "ticker aapl" "[]" ?w1]
    fetch_company_entries [OF h, of "[]"]
  have f: "fst (fetch_company env_oldest_first aapl [] world0) = None"
    and g: "fst (snd (fetch_company env_oldest_first aapl [] world0)) =
          quotes_of_entries env_oldest_first (ticker aapl) (clock ?w1) (take 30 january)"
    by simp_all
  have q: "map q_date (fst (snd (fetch_company env_oldest_first aapl [] world0))) =
     take 30 (map fst january)"
    by (simp add: g quotes_of_entries_q_date take_map)
  have a: "''2025-01-31'' \<in> set (map fst (most_recent 30 january))"
    unfolding january_most_recent january_dates by simp
  have b: "''2025-01-31'' \<notin> set (take 30 (map fst january))"
    unfolding january_dates by simp
  from h n f q a b january_most_recent show ?thesis
    by simp
qed

end
